theory Spec2Isabelle
  imports Main
begin

section \<open>Data model of the ClusterRegistration API\<close>

text \<open>
  The types of \<^verbatim>\<open>apis/core.oam.dev/v1beta1/clusterregistration_types.go\<close>, with the part
  of \<^verbatim>\<open>metav1.ObjectMeta\<close> that the controller reads or writes. A \<^verbatim>\<open>metav1.Time\<close> is a
  number of ticks since the zero instant, a pointer is an \<open>option\<close>, an \<^verbatim>\<open>int64\<close> that is
  only compared and copied is an \<open>int\<close>.
\<close>

type_synonym Time = nat

record Condition =
  cond_Type :: string
  cond_Status :: string
  cond_LastTransitionTime :: Time
  cond_Reason :: string
  cond_Message :: string

record ClusterRegistrationSpec =
  ClusterName :: string
  Alias :: string
  Kubeconfig :: string
  CreateNamespace :: string
  Labels :: "string \<rightharpoonup> string"

type_synonym ClusterRegistrationPhase = string

definition ClusterRegistrationPhasePending :: ClusterRegistrationPhase where
  "ClusterRegistrationPhasePending = ''Pending''"

definition ClusterRegistrationPhaseProgressing :: ClusterRegistrationPhase where
  "ClusterRegistrationPhaseProgressing = ''Progressing''"

definition ClusterRegistrationPhaseReady :: ClusterRegistrationPhase where
  "ClusterRegistrationPhaseReady = ''Ready''"

definition ClusterRegistrationPhaseFailed :: ClusterRegistrationPhase where
  "ClusterRegistrationPhaseFailed = ''Failed''"

record ClusterInfo =
  Endpoint :: string
  CredentialType :: string
  Version :: string

record ClusterRegistrationStatus =
  Phase :: ClusterRegistrationPhase
  Conditions :: "Condition list"
  ClusterInfo :: "ClusterInfo option"
  Message :: string
  ObservedGeneration :: int
  LastReconcileTime :: "Time option"

record ClusterRegistration =
  Name :: string
  Namespace :: string
  Generation :: int
  DeletionTimestamp :: "Time option"
  Finalizers :: "string list"
  Spec :: ClusterRegistrationSpec
  Status :: ClusterRegistrationStatus

text \<open>\<^verbatim>\<open>(*metav1.Time).IsZero\<close>: a nil pointer or the zero instant.\<close>

definition IsZero :: "Time option \<Rightarrow> bool" where
  "IsZero t = (case t of None \<Rightarrow> True | Some n \<Rightarrow> n = 0)"

section \<open>Errors, results and collaborators\<close>

text \<open>
  A Go \<^verbatim>\<open>error\<close> is its message and whether \<^verbatim>\<open>apierrors.IsNotFound\<close> holds of it.
\<close>

datatype error = NotFoundError string | OtherError string

fun Error :: "error \<Rightarrow> string" where
  "Error (NotFoundError m) = m"
| "Error (OtherError m) = m"

fun IsNotFound :: "error \<Rightarrow> bool" where
  "IsNotFound (NotFoundError m) = True"
| "IsNotFound (OtherError m) = False"

text \<open>\<^verbatim>\<open>ctrl.Result\<close>; \<^verbatim>\<open>RequeueAfter\<close> is a \<^verbatim>\<open>time.Duration\<close>, in nanoseconds.\<close>

record Result =
  Requeue :: bool
  RequeueAfter :: int

definition Result_empty :: Result where
  "Result_empty = \<lparr>Requeue = False, RequeueAfter = 0\<rparr>"

definition Second :: int where
  "Second = 1000000000"

text \<open>
  The loaded cluster configuration of package \<^verbatim>\<open>multicluster\<close>, with the fields the
  controller touches: \<^verbatim>\<open>clusterConfig.Cluster.Server\<close>, \<^verbatim>\<open>clusterConfig.AuthInfo.Token\<close> and
  \<^verbatim>\<open>clusterConfig.AuthInfo.Exec\<close> (a pointer).
\<close>

record Cluster =
  Server :: string

record AuthInfo =
  Token :: string
  Exec :: "string option"

record KubeClusterConfig =
  cfg_ClusterName :: string
  cfg_CreateNamespace :: string
  cfg_Cluster :: Cluster
  cfg_AuthInfo :: AuthInfo

text \<open>
  Modelled from the spec: \<^verbatim>\<open>multicluster.ClusterLocalName\<close>, the reserved name of the hub
  cluster, is declared outside the sources at hand; the spec's Scenario C and the
  controller's own error message give its value.
\<close>

definition ClusterLocalName :: string where
  "ClusterLocalName = ''local''"

text \<open>
  Modelled from the spec: \<^verbatim>\<open>SetClusterName\<close> and \<^verbatim>\<open>SetCreateNamespace\<close> of
  \<^verbatim>\<open>multicluster.KubeClusterConfig\<close> are declared outside the sources at hand; they apply
  the resolved cluster name and the namespace to create to the loaded configuration.
\<close>

definition SetClusterName :: "KubeClusterConfig \<Rightarrow> string \<Rightarrow> KubeClusterConfig" where
  "SetClusterName clusterConfig clusterName = clusterConfig\<lparr>cfg_ClusterName := clusterName\<rparr>"

definition SetCreateNamespace :: "KubeClusterConfig \<Rightarrow> string \<Rightarrow> KubeClusterConfig" where
  "SetCreateNamespace clusterConfig createNamespace =
     clusterConfig\<lparr>cfg_CreateNamespace := createNamespace\<rparr>"

text \<open>
  Modelled from the spec: \<^verbatim>\<open>condition.Available\<close> and \<^verbatim>\<open>condition.Unavailable\<close> of package
  \<^verbatim>\<open>apis/core.oam.dev/condition\<close> are declared outside the sources at hand. A condition
  has a type, a status, a reason, a message and its last transition time; the two
  constructors give the Available and the Unavailable judgment, stamped with the clock
  and with an empty message.
\<close>

definition Available :: "Time \<Rightarrow> Condition" where
  "Available t = \<lparr>cond_Type = ''Ready'', cond_Status = ''True'', cond_LastTransitionTime = t,
                   cond_Reason = ''Available'', cond_Message = ''''\<rparr>"

definition Unavailable :: "Time \<Rightarrow> Condition" where
  "Unavailable t = \<lparr>cond_Type = ''Ready'', cond_Status = ''False'', cond_LastTransitionTime = t,
                     cond_Reason = ''Unavailable'', cond_Message = ''''\<rparr>"

text \<open>
  One reconciliation pass sees its collaborators through their answers. \<open>Get\<close> is what
  \<^verbatim>\<open>r.Get\<close> returns, \<open>Update\<close> and \<open>StatusUpdate\<close> what the two writes of the client answer
  for the object they are given, \<open>CreateTemp\<close> and \<open>Write\<close> the outcome of creating and
  filling the temporary file, \<open>LoadKubeClusterConfigFromFile\<close> the parse of the file's
  content, \<open>Validate\<close>, \<open>RegisterByVelaSecret\<close> and \<open>DetachCluster\<close> the answers of package
  \<^verbatim>\<open>multicluster\<close>, and \<open>Clock k\<close> the value of the \<open>k\<close>-th \<^verbatim>\<open>metav1.Now()\<close> of the pass.
\<close>

record env =
  Get :: "error + ClusterRegistration"
  Update :: "ClusterRegistration \<Rightarrow> error option"
  StatusUpdate :: "ClusterRegistration \<Rightarrow> error option"
  CreateTemp :: "error option"
  Write :: "string \<Rightarrow> error option"
  LoadKubeClusterConfigFromFile :: "string \<Rightarrow> error + KubeClusterConfig"
  Validate :: "KubeClusterConfig \<Rightarrow> error option"
  RegisterByVelaSecret :: "KubeClusterConfig \<Rightarrow> error option"
  DetachCluster :: "string \<Rightarrow> error option"
  Clock :: "nat \<Rightarrow> Time"

text \<open>The calls a pass makes, in order, each with the argument the claims are about.\<close>

datatype call =
    GetCall
  | UpdateCall ClusterRegistration
  | StatusUpdateCall ClusterRegistration
  | CreateTempCall
  | WriteCall string
  | CloseCall
  | RemoveCall
  | LoadCall string
  | ValidateCall KubeClusterConfig
  | RegisterCall KubeClusterConfig
  | DetachCall string

text \<open>
  What a pass returns: the \<^verbatim>\<open>ctrl.Result\<close> and the error handed to the dispatcher, the
  calls made, the errors written with \<^verbatim>\<open>klog.ErrorS\<close> (informational logging is left
  out), and the in-memory object at the return, if one was fetched.
\<close>

record outcome =
  result :: Result
  err :: "error option"
  calls :: "call list"
  logs :: "(error \<times> string) list"
  object :: "ClusterRegistration option"

section \<open>The controller\<close>

definition clusterRegistrationFinalizer :: string where
  "clusterRegistrationFinalizer = ''clusterregistration.core.oam.dev/finalizer''"

text \<open>
  The three finalizer helpers of \<^verbatim>\<open>controllerutil\<close>: membership, append when absent,
  removal of every occurrence.
\<close>

definition ContainsFinalizer :: "ClusterRegistration \<Rightarrow> string \<Rightarrow> bool" where
  "ContainsFinalizer clusterReg finalizer = (finalizer \<in> set (Finalizers clusterReg))"

definition AddFinalizer :: "ClusterRegistration \<Rightarrow> string \<Rightarrow> ClusterRegistration" where
  "AddFinalizer clusterReg finalizer =
     (if finalizer \<in> set (Finalizers clusterReg) then clusterReg
      else clusterReg\<lparr>Finalizers := Finalizers clusterReg @ [finalizer]\<rparr>)"

definition RemoveFinalizer :: "ClusterRegistration \<Rightarrow> string \<Rightarrow> ClusterRegistration" where
  "RemoveFinalizer clusterReg finalizer =
     clusterReg\<lparr>Finalizers := filter (\<lambda>f. f \<noteq> finalizer) (Finalizers clusterReg)\<rparr>"

text \<open>
  \<^verbatim>\<open>updateFailedStatus\<close>: the object after the assignments, the one status write, and the
  log line when that write fails. It returns nothing else: the error is dropped.
\<close>

definition updateFailedStatus ::
  "env \<Rightarrow> ClusterRegistration \<Rightarrow> string \<Rightarrow> ClusterRegistration \<times> call list \<times> (error \<times> string) list"
where
  "updateFailedStatus e clusterReg message =
     (let clusterReg = clusterReg\<lparr>Status := (Status clusterReg)\<lparr>
            Phase := ClusterRegistrationPhaseFailed,
            Message := message,
            ObservedGeneration := Generation clusterReg,
            LastReconcileTime := Some (Clock e 0),
            Conditions := [(Unavailable (Clock e 1))\<lparr>cond_Message := message\<rparr>]\<rparr>\<rparr>
      in (clusterReg, [StatusUpdateCall clusterReg],
          (case StatusUpdate e clusterReg of
             Some er \<Rightarrow> [(er, ''Failed to update failed status'')]
           | None \<Rightarrow> [])))"

text \<open>
  A Failed-path exit of \<^verbatim>\<open>Reconcile\<close>: the calls \<open>cs\<close> and log lines \<open>ls\<close> made so far, then
  \<^verbatim>\<open>updateFailedStatus\<close>, then \<^verbatim>\<open>return res, nil\<close>.
\<close>

definition failedExit ::
  "env \<Rightarrow> ClusterRegistration \<Rightarrow> string \<Rightarrow> Result \<Rightarrow> call list \<Rightarrow> (error \<times> string) list \<Rightarrow> outcome"
where
  "failedExit e clusterReg message res cs ls =
     (case updateFailedStatus e clusterReg message of
        (clusterReg', cs', ls') \<Rightarrow>
          \<lparr>result = res, err = None, calls = cs @ cs', logs = ls @ ls',
           object = Some clusterReg'\<rparr>)"

definition handleDeletion :: "env \<Rightarrow> ClusterRegistration \<Rightarrow> outcome" where
  "handleDeletion e clusterReg =
     (if ContainsFinalizer clusterReg clusterRegistrationFinalizer then
        (let clusterName = (if ClusterName (Spec clusterReg) = '''' then Name clusterReg
                            else ClusterName (Spec clusterReg)) in
         (case (case DetachCluster e clusterName of
                  Some er \<Rightarrow> if \<not> IsNotFound er then Some er else None
                | None \<Rightarrow> None) of
            Some er \<Rightarrow>
              \<lparr>result = Result_empty, err = Some er, calls = [DetachCall clusterName],
               logs = [(er, ''Failed to detach cluster'')], object = Some clusterReg\<rparr>
          | None \<Rightarrow>
              (let clusterReg = RemoveFinalizer clusterReg clusterRegistrationFinalizer in
               (case Update e clusterReg of
                  Some er \<Rightarrow>
                    \<lparr>result = Result_empty, err = Some er,
                     calls = [DetachCall clusterName, UpdateCall clusterReg],
                     logs = [(er, ''Failed to remove finalizer'')], object = Some clusterReg\<rparr>
                | None \<Rightarrow>
                    \<lparr>result = Result_empty, err = None,
                     calls = [DetachCall clusterName, UpdateCall clusterReg],
                     logs = [], object = Some clusterReg\<rparr>))))
      else
        \<lparr>result = Result_empty, err = None, calls = [], logs = [],
         object = Some clusterReg\<rparr>)"

text \<open>
  The part of \<^verbatim>\<open>Reconcile\<close> that runs once the temporary file exists (from the
  \<^verbatim>\<open>defer os.Remove\<close> to the end of the function); \<open>cs\<close> are the calls made before it.
\<close>

definition reconcileWithTmpfile ::
  "env \<Rightarrow> ClusterRegistration \<Rightarrow> string \<Rightarrow> call list \<Rightarrow> outcome"
where
  "reconcileWithTmpfile e clusterReg clusterName cs =
     (let kubeconfig = Kubeconfig (Spec clusterReg) in
      (case Write e kubeconfig of
         Some er \<Rightarrow>
           failedExit e clusterReg (''Failed to write kubeconfig: '' @ Error er) Result_empty
             (cs @ [WriteCall kubeconfig])
             [(er, ''Failed to write kubeconfig to temporary file'')]
       | None \<Rightarrow>
           (case LoadKubeClusterConfigFromFile e kubeconfig of
              Inl er \<Rightarrow>
                failedExit e clusterReg (''Failed to load kubeconfig: '' @ Error er) Result_empty
                  (cs @ [WriteCall kubeconfig, CloseCall, LoadCall kubeconfig])
                  [(er, ''Failed to load kubeconfig'')]
            | Inr clusterConfig \<Rightarrow>
                (let createNamespace =
                       (if CreateNamespace (Spec clusterReg) = '''' then ''vela-system''
                        else CreateNamespace (Spec clusterReg));
                     clusterConfig =
                       SetCreateNamespace (SetClusterName clusterConfig clusterName) createNamespace;
                     cs = cs @ [WriteCall kubeconfig, CloseCall, LoadCall kubeconfig,
                                ValidateCall clusterConfig]
                 in
                 (case Validate e clusterConfig of
                    Some er \<Rightarrow>
                      failedExit e clusterReg (''Validation failed: '' @ Error er) Result_empty
                        cs [(er, ''Cluster configuration validation failed'')]
                  | None \<Rightarrow>
                      (case RegisterByVelaSecret e clusterConfig of
                         Some er \<Rightarrow>
                           failedExit e clusterReg (''Failed to register cluster: '' @ Error er)
                             \<lparr>Requeue = False, RequeueAfter = 30 * Second\<rparr>
                             (cs @ [RegisterCall clusterConfig])
                             [(er, ''Failed to register cluster'')]
                       | None \<Rightarrow>
                           (let credentialType =
                                  (if length (Token (cfg_AuthInfo clusterConfig)) > 0
                                      \<or> Exec (cfg_AuthInfo clusterConfig) \<noteq> None
                                   then ''ServiceAccountToken'' else ''X509Certificate'');
                                clusterReg = clusterReg\<lparr>Status := (Status clusterReg)\<lparr>
                                  Phase := ClusterRegistrationPhaseReady,
                                  Message := ''Cluster successfully registered'',
                                  ObservedGeneration := Generation clusterReg,
                                  LastReconcileTime := Some (Clock e 0),
                                  ClusterInfo := Some \<lparr>Endpoint = Server (cfg_Cluster clusterConfig),
                                                       CredentialType = credentialType,
                                                       Version = ''''\<rparr>,
                                  Conditions := [(Available (Clock e 1))\<lparr>cond_Message :=
                                    ''Cluster successfully registered and ready''\<rparr>]\<rparr>\<rparr>;
                                cs = cs @ [RegisterCall clusterConfig, StatusUpdateCall clusterReg]
                            in
                            (case StatusUpdate e clusterReg of
                               Some er \<Rightarrow>
                                 \<lparr>result = Result_empty, err = Some er, calls = cs,
                                  logs = [(er, ''Failed to update status to Ready'')],
                                  object = Some clusterReg\<rparr>
                             | None \<Rightarrow>
                                 \<lparr>result = Result_empty, err = None, calls = cs,
                                  logs = [], object = Some clusterReg\<rparr>))))))))"

text \<open>
  \<^verbatim>\<open>Reconcile\<close>. Every \<^verbatim>\<open>return\<close> of the source is one branch; the deferred
  \<^verbatim>\<open>os.Remove\<close> is the last call of every branch taken after the file was created.
\<close>

definition Reconcile :: "env \<Rightarrow> outcome" where
  "Reconcile e =
     (case Get e of
        Inl er \<Rightarrow>
          (if IsNotFound er then
             \<lparr>result = Result_empty, err = None, calls = [GetCall], logs = [], object = None\<rparr>
           else
             \<lparr>result = Result_empty, err = Some er, calls = [GetCall],
              logs = [(er, ''Failed to get ClusterRegistration'')], object = None\<rparr>)
      | Inr clusterReg \<Rightarrow>
          (if \<not> IsZero (DeletionTimestamp clusterReg) then
             (let out = handleDeletion e clusterReg in out\<lparr>calls := GetCall # calls out\<rparr>)
           else if \<not> ContainsFinalizer clusterReg clusterRegistrationFinalizer then
             (let clusterReg = AddFinalizer clusterReg clusterRegistrationFinalizer in
              (case Update e clusterReg of
                 Some er \<Rightarrow>
                   \<lparr>result = Result_empty, err = Some er,
                    calls = [GetCall, UpdateCall clusterReg],
                    logs = [(er, ''Failed to add finalizer'')], object = Some clusterReg\<rparr>
               | None \<Rightarrow>
                   \<lparr>result = \<lparr>Requeue = True, RequeueAfter = 0\<rparr>, err = None,
                    calls = [GetCall, UpdateCall clusterReg],
                    logs = [], object = Some clusterReg\<rparr>))
           else if Phase (Status clusterReg) = ClusterRegistrationPhaseReady
                   \<and> ObservedGeneration (Status clusterReg) = Generation clusterReg then
             \<lparr>result = Result_empty, err = None, calls = [GetCall], logs = [],
              object = Some clusterReg\<rparr>
           else
             (let clusterName = (if ClusterName (Spec clusterReg) = '''' then Name clusterReg
                            else ClusterName (Spec clusterReg)) in
              if clusterName = ClusterLocalName then
                failedExit e clusterReg ''cluster name cannot be 'local', it is reserved''
                  Result_empty [GetCall] []
              else if Phase (Status clusterReg) \<noteq> ClusterRegistrationPhaseProgressing
                      \<and> Phase (Status clusterReg) \<noteq> ClusterRegistrationPhaseReady then
                (let clusterReg = clusterReg\<lparr>Status := (Status clusterReg)\<lparr>
                       Phase := ClusterRegistrationPhaseProgressing,
                       Message := ''Registering cluster...''\<rparr>\<rparr>
                 in
                 (case StatusUpdate e clusterReg of
                    Some er \<Rightarrow>
                      \<lparr>result = Result_empty, err = Some er,
                       calls = [GetCall, StatusUpdateCall clusterReg],
                       logs = [(er, ''Failed to update status to Progressing'')],
                       object = Some clusterReg\<rparr>
                  | None \<Rightarrow>
                      \<lparr>result = Result_empty, err = None,
                       calls = [GetCall, StatusUpdateCall clusterReg],
                       logs = [], object = Some clusterReg\<rparr>))
              else
                (case CreateTemp e of
                   Some er \<Rightarrow>
                     failedExit e clusterReg (''Failed to create temporary file: '' @ Error er)
                       Result_empty [GetCall, CreateTempCall]
                       [(er, ''Failed to create temporary kubeconfig file'')]
                 | None \<Rightarrow>
                     (let out = reconcileWithTmpfile e clusterReg clusterName
                                  [GetCall, CreateTempCall]
                      in out\<lparr>calls := calls out @ [RemoveCall]\<rparr>)))))"

section \<open>The record store across passes\<close>

text \<open>
  The dispatcher hands the stored record to each pass, and a write that the API server
  accepts changes the stored record: \<^verbatim>\<open>r.Update\<close> stores the object's metadata and spec,
  \<^verbatim>\<open>r.Status().Update\<close> its status (the type declares the status subresource). A record
  with a deletion marker is removed from the store by the accepted \<^verbatim>\<open>r.Update\<close> that leaves
  it without any finalizer; a later \<^verbatim>\<open>r.Get\<close> then answers ``not found''. \<open>pass\<close> is one
  delivery of the stored record, \<open>run\<close> a sequence of deliveries, each with its own
  collaborator answers.
\<close>

definition fetch :: "ClusterRegistration option \<Rightarrow> error + ClusterRegistration" where
  "fetch s = (case s of None \<Rightarrow> Inl (NotFoundError ''not found'') | Some cr \<Rightarrow> Inr cr)"

definition persist :: "env \<Rightarrow> ClusterRegistration option \<Rightarrow> call \<Rightarrow> ClusterRegistration option" where
  "persist e s c =
     (case s of
        None \<Rightarrow> None
      | Some old \<Rightarrow>
          (case c of
             UpdateCall cr \<Rightarrow>
               if Update e cr = None then
                 (if \<not> IsZero (DeletionTimestamp cr) \<and> Finalizers cr = [] then None
                  else Some (cr\<lparr>Status := Status old\<rparr>))
               else s
           | StatusUpdateCall cr \<Rightarrow>
               if StatusUpdate e cr = None then Some (old\<lparr>Status := Status cr\<rparr>) else s
           | _ \<Rightarrow> s))"

definition pass :: "env \<Rightarrow> ClusterRegistration option \<Rightarrow> ClusterRegistration option" where
  "pass e s = foldl (persist e) s (calls (Reconcile (e\<lparr>Get := fetch s\<rparr>)))"

fun run :: "env list \<Rightarrow> ClusterRegistration option \<Rightarrow> ClusterRegistration option" where
  "run [] s = s"
| "run (e # es) s = run es (pass e s)"

section \<open>Vocabulary of the specification\<close>

text \<open>
  The resolved cluster name of a record: \<^verbatim>\<open>spec.clusterName\<close>, or the record's name when
  that is empty.
\<close>

definition resolvedClusterName :: "ClusterRegistration \<Rightarrow> string" where
  "resolvedClusterName clusterReg =
     (if ClusterName (Spec clusterReg) = '''' then Name clusterReg
      else ClusterName (Spec clusterReg))"

text \<open>The credential type that the spec's success projection infers from a loaded credential.\<close>

definition inferredCredentialType :: "KubeClusterConfig \<Rightarrow> string" where
  "inferredCredentialType clusterConfig =
     (if Token (cfg_AuthInfo clusterConfig) \<noteq> '''' \<or> Exec (cfg_AuthInfo clusterConfig) \<noteq> None
      then ''ServiceAccountToken'' else ''X509Certificate'')"

text \<open>
  A record is on the forward path when it has no deletion marker, carries the finalizer
  and is not at the fixed point; it is at the registration stage when, besides, its
  resolved name is not the reserved one and its phase is Progressing or Ready.
\<close>

definition forwardPath :: "ClusterRegistration \<Rightarrow> bool" where
  "forwardPath clusterReg =
     (IsZero (DeletionTimestamp clusterReg)
      \<and> ContainsFinalizer clusterReg clusterRegistrationFinalizer
      \<and> \<not> (Phase (Status clusterReg) = ClusterRegistrationPhaseReady
           \<and> ObservedGeneration (Status clusterReg) = Generation clusterReg))"

definition registrationStage :: "ClusterRegistration \<Rightarrow> bool" where
  "registrationStage clusterReg =
     (forwardPath clusterReg
      \<and> resolvedClusterName clusterReg \<noteq> ClusterLocalName
      \<and> (Phase (Status clusterReg) = ClusterRegistrationPhaseProgressing
         \<or> Phase (Status clusterReg) = ClusterRegistrationPhaseReady))"

text \<open>
  The loaded configuration with the record's resolved cluster name and its namespace to
  create (\<^verbatim>\<open>vela-system\<close> when the spec leaves it empty) applied.
\<close>

definition configuredFor :: "ClusterRegistration \<Rightarrow> KubeClusterConfig \<Rightarrow> KubeClusterConfig" where
  "configuredFor clusterReg clusterConfig =
     SetCreateNamespace (SetClusterName clusterConfig (resolvedClusterName clusterReg))
       (if CreateNamespace (Spec clusterReg) = '''' then ''vela-system''
        else CreateNamespace (Spec clusterReg))"

text \<open>The record after the phase announcement, and after the success projection.\<close>

definition announced :: "ClusterRegistration \<Rightarrow> ClusterRegistration" where
  "announced clusterReg =
     clusterReg\<lparr>Status := (Status clusterReg)\<lparr>
       Phase := ''Progressing'', Message := ''Registering cluster...''\<rparr>\<rparr>"

definition readyProjection ::
  "env \<Rightarrow> ClusterRegistration \<Rightarrow> KubeClusterConfig \<Rightarrow> ClusterRegistration"
where
  "readyProjection e clusterReg clusterConfig =
     clusterReg\<lparr>Status :=
       \<lparr>Phase = ''Ready'',
        Conditions = [\<lparr>cond_Type = ''Ready'', cond_Status = ''True'',
                       cond_LastTransitionTime = Clock e 1, cond_Reason = ''Available'',
                       cond_Message = ''Cluster successfully registered and ready''\<rparr>],
        ClusterInfo = Some \<lparr>Endpoint = Server (cfg_Cluster clusterConfig),
                            CredentialType = inferredCredentialType clusterConfig,
                            Version = ''''\<rparr>,
        Message = ''Cluster successfully registered'',
        ObservedGeneration = Generation clusterReg,
        LastReconcileTime = Some (Clock e 0)\<rparr>\<rparr>"

text \<open>The status writes among the calls of a pass.\<close>

fun statusWrites :: "call list \<Rightarrow> ClusterRegistration list" where
  "statusWrites [] = []"
| "statusWrites (StatusUpdateCall cr # cs) = cr # statusWrites cs"
| "statusWrites (c # cs) = statusWrites cs"

text \<open>The outcome of a Failed-path exit: calls \<open>cs\<close>, the failure projection, calls \<open>tl\<close>.\<close>

definition failedOutcome ::
  "env \<Rightarrow> ClusterRegistration \<Rightarrow> string \<Rightarrow> Result \<Rightarrow> call list \<Rightarrow> call list
     \<Rightarrow> (error \<times> string) list \<Rightarrow> outcome"
where
  "failedOutcome e cr m res cs after ls =
     \<lparr>result = res, err = None,
      calls = cs @ StatusUpdateCall (fst (updateFailedStatus e cr m)) # after,
      logs = ls @ (case StatusUpdate e (fst (updateFailedStatus e cr m)) of
         Some er \<Rightarrow> [(er, ''Failed to update failed status'')] | None \<Rightarrow> []),
      object = Some (fst (updateFailedStatus e cr m))\<rparr>"

section \<open>Example records and collaborators\<close>

text \<open>
  A record as the user creates it (empty status, no finalizer), the same record at later
  stages of its life, a loaded configuration, and collaborators that all succeed.
\<close>

definition newRecord :: ClusterRegistration where
  "newRecord =
     \<lparr>Name = ''reg-1'', Namespace = ''vela-system'', Generation = 1, DeletionTimestamp = None,
      Finalizers = [],
      Spec = \<lparr>ClusterName = ''prod-west'', Alias = '''', Kubeconfig = ''clusters: [prod-west]'',
               CreateNamespace = '''', Labels = Map.empty\<rparr>,
      Status = \<lparr>Phase = '''', Conditions = [], ClusterInfo = None, Message = '''',
                 ObservedGeneration = 0, LastReconcileTime = None\<rparr>\<rparr>"

definition guardedRecord :: ClusterRegistration where
  "guardedRecord = newRecord\<lparr>Finalizers := [clusterRegistrationFinalizer]\<rparr>"

definition progressingRecord :: ClusterRegistration where
  "progressingRecord =
     guardedRecord\<lparr>Status := (Status guardedRecord)\<lparr>
       Phase := ''Progressing'', Message := ''Registering cluster...''\<rparr>\<rparr>"

definition readyRecord :: ClusterRegistration where
  "readyRecord =
     guardedRecord\<lparr>Status :=
       \<lparr>Phase = ''Ready'',
        Conditions = [\<lparr>cond_Type = ''Ready'', cond_Status = ''True'',
                       cond_LastTransitionTime = 501, cond_Reason = ''Available'',
                       cond_Message = ''Cluster successfully registered and ready''\<rparr>],
        ClusterInfo = Some \<lparr>Endpoint = ''https://10.0.0.1:6443'',
                            CredentialType = ''ServiceAccountToken'', Version = ''''\<rparr>,
        Message = ''Cluster successfully registered'',
        ObservedGeneration = 1, LastReconcileTime = Some 500\<rparr>\<rparr>"

definition failedRecord :: ClusterRegistration where
  "failedRecord =
     guardedRecord\<lparr>Status :=
       \<lparr>Phase = ''Failed'',
        Conditions = [\<lparr>cond_Type = ''Ready'', cond_Status = ''False'',
                       cond_LastTransitionTime = 501, cond_Reason = ''Unavailable'',
                       cond_Message = ''Failed to register cluster: conflict''\<rparr>],
        ClusterInfo = None,
        Message = ''Failed to register cluster: conflict'',
        ObservedGeneration = 1, LastReconcileTime = Some 500\<rparr>\<rparr>"

definition exampleConfig :: KubeClusterConfig where
  "exampleConfig =
     \<lparr>cfg_ClusterName = '''', cfg_CreateNamespace = '''',
      cfg_Cluster = \<lparr>Server = ''https://10.0.0.1:6443''\<rparr>,
      cfg_AuthInfo = \<lparr>Token = ''t0k3n'', Exec = None\<rparr>\<rparr>"

definition registeredConfig :: KubeClusterConfig where
  "registeredConfig =
     exampleConfig\<lparr>cfg_ClusterName := ''prod-west'', cfg_CreateNamespace := ''vela-system''\<rparr>"

definition happyEnv :: "ClusterRegistration \<Rightarrow> env" where
  "happyEnv cr =
     \<lparr>Get = Inr cr, Update = (\<lambda>_. None), StatusUpdate = (\<lambda>_. None), CreateTemp = None,
      Write = (\<lambda>_. None), LoadKubeClusterConfigFromFile = (\<lambda>_. Inr exampleConfig),
      Validate = (\<lambda>_. None), RegisterByVelaSecret = (\<lambda>_. None),
      DetachCluster = (\<lambda>_. None), Clock = (\<lambda>k. 1000 + k)\<rparr>"

definition localRecord :: ClusterRegistration where
  "localRecord = newRecord\<lparr>Spec := (Spec newRecord)\<lparr>ClusterName := ''local''\<rparr>\<rparr>"

definition conflictEnv :: env where
  "conflictEnv =
     (happyEnv progressingRecord)\<lparr>RegisterByVelaSecret := (\<lambda>_. Some (OtherError ''conflict''))\<rparr>"

definition deletingRecord :: ClusterRegistration where
  "deletingRecord = readyRecord\<lparr>DeletionTimestamp := Some 2000\<rparr>"

definition detachEnv :: "error option \<Rightarrow> ClusterRegistration \<Rightarrow> env" where
  "detachEnv answer cr = (happyEnv cr)\<lparr>DetachCluster := (\<lambda>_. answer)\<rparr>"

definition flakyRun :: "env list" where
  "flakyRun =
     [(happyEnv newRecord)\<lparr>LoadKubeClusterConfigFromFile := (\<lambda>_. Inl (OtherError ''bad yaml''))\<rparr>,
      happyEnv newRecord,
      (happyEnv newRecord)\<lparr>RegisterByVelaSecret := (\<lambda>_. Some (OtherError ''conflict''))\<rparr>,
      happyEnv newRecord,
      happyEnv newRecord]"

definition badYamlEnv :: "ClusterRegistration \<Rightarrow> env" where
  "badYamlEnv cr =
     (happyEnv cr)\<lparr>LoadKubeClusterConfigFromFile := (\<lambda>_. Inl (OtherError ''bad yaml''))\<rparr>"

definition editedRecord :: ClusterRegistration where
  "editedRecord =
     readyRecord\<lparr>Generation := 2,
       Spec := (Spec readyRecord)\<lparr>Kubeconfig := ''not a valid document''\<rparr>\<rparr>"

definition badYamlFailed :: ClusterRegistration where
  "badYamlFailed =
     progressingRecord\<lparr>Status :=
       \<lparr>Phase = ''Failed'',
        Conditions = [\<lparr>cond_Type = ''Ready'', cond_Status = ''False'',
                       cond_LastTransitionTime = 1001, cond_Reason = ''Unavailable'',
                       cond_Message = ''Failed to load kubeconfig: bad yaml''\<rparr>],
        ClusterInfo = None, Message = ''Failed to load kubeconfig: bad yaml'',
        ObservedGeneration = 1, LastReconcileTime = Some 1000\<rparr>\<rparr>"

definition localFailedRecord :: ClusterRegistration where
  "localFailedRecord = failedRecord\<lparr>Spec := (Spec failedRecord)\<lparr>ClusterName := ''local''\<rparr>\<rparr>"

section \<open>The returns of a pass\<close>

lemmas phase_defs = ClusterRegistrationPhaseReady_def ClusterRegistrationPhaseFailed_def
  ClusterRegistrationPhaseProgressing_def ClusterRegistrationPhasePending_def

lemmas const_defs = phase_defs ClusterLocalName_def clusterRegistrationFinalizer_def
  Result_empty_def Second_def IsZero_def ContainsFinalizer_def AddFinalizer_def RemoveFinalizer_def
  SetClusterName_def SetCreateNamespace_def Available_def Unavailable_def

lemmas example_defs = newRecord_def guardedRecord_def progressingRecord_def readyRecord_def
  failedRecord_def exampleConfig_def registeredConfig_def happyEnv_def

subsection \<open>The failure projection\<close>

lemma updateFailedStatus_eq:
  "updateFailedStatus e cr m =
     (fst (updateFailedStatus e cr m), [StatusUpdateCall (fst (updateFailedStatus e cr m))],
      (case StatusUpdate e (fst (updateFailedStatus e cr m)) of
         Some er \<Rightarrow> [(er, ''Failed to update failed status'')] | None \<Rightarrow> []))"
  by (simp add: updateFailedStatus_def Let_def)

lemma failedExit_eq:
  "failedExit e cr m res cs ls =
     \<lparr>result = res, err = None,
      calls = cs @ [StatusUpdateCall (fst (updateFailedStatus e cr m))],
      logs = ls @ (case StatusUpdate e (fst (updateFailedStatus e cr m)) of
         Some er \<Rightarrow> [(er, ''Failed to update failed status'')] | None \<Rightarrow> []),
      object = Some (fst (updateFailedStatus e cr m))\<rparr>"
  by (simp add: failedExit_def updateFailedStatus_def Let_def)

lemma failed_Status:
  "Status (fst (updateFailedStatus e cr m)) =
     (Status cr)\<lparr>Phase := ''Failed'', Message := m, ObservedGeneration := Generation cr,
       LastReconcileTime := Some (Clock e 0),
       Conditions := [\<lparr>cond_Type = ''Ready'', cond_Status = ''False'',
                       cond_LastTransitionTime = Clock e 1, cond_Reason = ''Unavailable'',
                       cond_Message = m\<rparr>]\<rparr>"
  by (simp add: updateFailedStatus_def Let_def Unavailable_def ClusterRegistrationPhaseFailed_def)

lemma failed_frame:
  "fst (updateFailedStatus e cr m) = cr\<lparr>Status := Status (fst (updateFailedStatus e cr m))\<rparr>"
  by (simp add: updateFailedStatus_def Let_def)

subsection \<open>One lemma for each return of Reconcile\<close>

lemma Reconcile_get_failed:
  assumes "Get e = Inl er"
  shows "Reconcile e =
    \<lparr>result = Result_empty, err = (if IsNotFound er then None else Some er), calls = [GetCall],
     logs = (if IsNotFound er then [] else [(er, ''Failed to get ClusterRegistration'')]),
     object = None\<rparr>"
  using assms by (simp add: Reconcile_def)

lemma Reconcile_deleted:
  assumes "Get e = Inr cr" and "\<not> IsZero (DeletionTimestamp cr)"
  shows "Reconcile e = (handleDeletion e cr)\<lparr>calls := GetCall # calls (handleDeletion e cr)\<rparr>"
  using assms by (simp add: Reconcile_def Let_def)

lemma handleDeletion_absent:
  assumes "\<not> ContainsFinalizer cr clusterRegistrationFinalizer"
  shows "handleDeletion e cr =
    \<lparr>result = Result_empty, err = None, calls = [], logs = [], object = Some cr\<rparr>"
  using assms by (simp add: handleDeletion_def)

lemma handleDeletion_detach_failed:
  assumes "ContainsFinalizer cr clusterRegistrationFinalizer"
    and "DetachCluster e (resolvedClusterName cr) = Some er" and "\<not> IsNotFound er"
  shows "handleDeletion e cr =
    \<lparr>result = Result_empty, err = Some er, calls = [DetachCall (resolvedClusterName cr)],
     logs = [(er, ''Failed to detach cluster'')], object = Some cr\<rparr>"
  using assms by (simp add: handleDeletion_def resolvedClusterName_def Let_def)

lemma handleDeletion_detached:
  assumes "ContainsFinalizer cr clusterRegistrationFinalizer"
    and "DetachCluster e (resolvedClusterName cr) = None
         \<or> (\<exists>er. DetachCluster e (resolvedClusterName cr) = Some er \<and> IsNotFound er)"
  shows "handleDeletion e cr =
    \<lparr>result = Result_empty,
     err = Update e (RemoveFinalizer cr clusterRegistrationFinalizer),
     calls = [DetachCall (resolvedClusterName cr),
              UpdateCall (RemoveFinalizer cr clusterRegistrationFinalizer)],
     logs = (case Update e (RemoveFinalizer cr clusterRegistrationFinalizer) of
               Some er \<Rightarrow> [(er, ''Failed to remove finalizer'')] | None \<Rightarrow> []),
     object = Some (RemoveFinalizer cr clusterRegistrationFinalizer)\<rparr>"
proof -
  have d: "(case DetachCluster e (resolvedClusterName cr) of
              Some er \<Rightarrow> if \<not> IsNotFound er then Some er else None | None \<Rightarrow> None) = None"
    using assms(2) by auto
  show ?thesis
  proof (cases "Update e (RemoveFinalizer cr clusterRegistrationFinalizer)")
    case None
    with assms(1) d show ?thesis
      unfolding resolvedClusterName_def by (simp add: handleDeletion_def Let_def)
  next
    case (Some er)
    with assms(1) d show ?thesis
      unfolding resolvedClusterName_def by (simp add: handleDeletion_def Let_def)
  qed
qed

lemma Reconcile_install:
  assumes "Get e = Inr cr" and "IsZero (DeletionTimestamp cr)"
    and "\<not> ContainsFinalizer cr clusterRegistrationFinalizer"
  shows "Reconcile e =
    \<lparr>result = (case Update e (AddFinalizer cr clusterRegistrationFinalizer) of
                 Some er \<Rightarrow> Result_empty | None \<Rightarrow> \<lparr>Requeue = True, RequeueAfter = 0\<rparr>),
     err = Update e (AddFinalizer cr clusterRegistrationFinalizer),
     calls = [GetCall, UpdateCall (AddFinalizer cr clusterRegistrationFinalizer)],
     logs = (case Update e (AddFinalizer cr clusterRegistrationFinalizer) of
               Some er \<Rightarrow> [(er, ''Failed to add finalizer'')] | None \<Rightarrow> []),
     object = Some (AddFinalizer cr clusterRegistrationFinalizer)\<rparr>"
  using assms
  by (cases "Update e (AddFinalizer cr clusterRegistrationFinalizer)")
     (simp_all add: Reconcile_def Let_def)

lemma Reconcile_fixed:
  assumes "Get e = Inr cr" and "IsZero (DeletionTimestamp cr)"
    and "ContainsFinalizer cr clusterRegistrationFinalizer"
    and "Phase (Status cr) = ClusterRegistrationPhaseReady"
    and "ObservedGeneration (Status cr) = Generation cr"
  shows "Reconcile e =
    \<lparr>result = Result_empty, err = None, calls = [GetCall], logs = [], object = Some cr\<rparr>"
  using assms by (simp add: Reconcile_def)

lemma Reconcile_reserved:
  assumes "Get e = Inr cr" and "forwardPath cr"
    and "resolvedClusterName cr = ClusterLocalName"
  shows "Reconcile e =
    failedExit e cr ''cluster name cannot be 'local', it is reserved'' Result_empty [GetCall] []"
  using assms unfolding forwardPath_def resolvedClusterName_def
  by (cases "Phase (Status cr) = ClusterRegistrationPhaseReady")
     (simp_all add: Reconcile_def Let_def)

lemma Reconcile_announce:
  assumes "Get e = Inr cr" and "forwardPath cr"
    and "resolvedClusterName cr \<noteq> ClusterLocalName"
    and "Phase (Status cr) \<noteq> ClusterRegistrationPhaseProgressing"
    and "Phase (Status cr) \<noteq> ClusterRegistrationPhaseReady"
  shows "Reconcile e =
    \<lparr>result = Result_empty, err = StatusUpdate e (announced cr),
     calls = [GetCall, StatusUpdateCall (announced cr)],
     logs = (case StatusUpdate e (announced cr) of
               Some er \<Rightarrow> [(er, ''Failed to update status to Progressing'')] | None \<Rightarrow> []),
     object = Some (announced cr)\<rparr>"
  using assms unfolding forwardPath_def resolvedClusterName_def
  by (cases "StatusUpdate e (announced cr)")
     (simp_all add: Reconcile_def Let_def announced_def ClusterRegistrationPhaseProgressing_def)

lemma Reconcile_create_failed:
  assumes "Get e = Inr cr" and "registrationStage cr" and "CreateTemp e = Some er"
  shows "Reconcile e =
    failedExit e cr (''Failed to create temporary file: '' @ Error er) Result_empty
      [GetCall, CreateTempCall] [(er, ''Failed to create temporary kubeconfig file'')]"
proof -
  from assms(2) have "Phase (Status cr) = ClusterRegistrationPhaseProgressing
      \<or> Phase (Status cr) = ClusterRegistrationPhaseReady"
    by (simp add: registrationStage_def)
  then show ?thesis
  proof
    assume "Phase (Status cr) = ClusterRegistrationPhaseProgressing"
    with assms show ?thesis
      unfolding registrationStage_def forwardPath_def resolvedClusterName_def
      by (simp add: Reconcile_def Let_def phase_defs)
  next
    assume "Phase (Status cr) = ClusterRegistrationPhaseReady"
    with assms show ?thesis
      unfolding registrationStage_def forwardPath_def resolvedClusterName_def
      by (simp add: Reconcile_def Let_def phase_defs)
  qed
qed

lemma Reconcile_tmpfile:
  assumes "Get e = Inr cr" and "registrationStage cr" and "CreateTemp e = None"
  shows "Reconcile e =
     (reconcileWithTmpfile e cr (resolvedClusterName cr) [GetCall, CreateTempCall])
       \<lparr>calls := calls (reconcileWithTmpfile e cr (resolvedClusterName cr)
                         [GetCall, CreateTempCall]) @ [RemoveCall]\<rparr>"
proof -
  from assms(2) have "Phase (Status cr) = ClusterRegistrationPhaseProgressing
      \<or> Phase (Status cr) = ClusterRegistrationPhaseReady"
    by (simp add: registrationStage_def)
  then show ?thesis
  proof
    assume "Phase (Status cr) = ClusterRegistrationPhaseProgressing"
    with assms show ?thesis
      unfolding registrationStage_def forwardPath_def resolvedClusterName_def
      by (simp add: Reconcile_def Let_def phase_defs)
  next
    assume "Phase (Status cr) = ClusterRegistrationPhaseReady"
    with assms show ?thesis
      unfolding registrationStage_def forwardPath_def resolvedClusterName_def
      by (simp add: Reconcile_def Let_def phase_defs)
  qed
qed

lemma tmpfile_write_failed:
  assumes "Write e (Kubeconfig (Spec cr)) = Some er"
  shows "reconcileWithTmpfile e cr name cs =
    failedExit e cr (''Failed to write kubeconfig: '' @ Error er) Result_empty
      (cs @ [WriteCall (Kubeconfig (Spec cr))])
      [(er, ''Failed to write kubeconfig to temporary file'')]"
  using assms by (simp add: reconcileWithTmpfile_def Let_def)

lemma tmpfile_load_failed:
  assumes "Write e (Kubeconfig (Spec cr)) = None"
    and "LoadKubeClusterConfigFromFile e (Kubeconfig (Spec cr)) = Inl er"
  shows "reconcileWithTmpfile e cr name cs =
    failedExit e cr (''Failed to load kubeconfig: '' @ Error er) Result_empty
      (cs @ [WriteCall (Kubeconfig (Spec cr)), CloseCall, LoadCall (Kubeconfig (Spec cr))])
      [(er, ''Failed to load kubeconfig'')]"
  using assms by (simp add: reconcileWithTmpfile_def Let_def)

lemma tmpfile_validate_failed:
  assumes "Write e (Kubeconfig (Spec cr)) = None"
    and "LoadKubeClusterConfigFromFile e (Kubeconfig (Spec cr)) = Inr cfg0"
    and "Validate e (configuredFor cr cfg0) = Some er"
  shows "reconcileWithTmpfile e cr (resolvedClusterName cr) cs =
    failedExit e cr (''Validation failed: '' @ Error er) Result_empty
      (cs @ [WriteCall (Kubeconfig (Spec cr)), CloseCall, LoadCall (Kubeconfig (Spec cr)),
             ValidateCall (configuredFor cr cfg0)])
      [(er, ''Cluster configuration validation failed'')]"
  using assms(1,2) assms(3) [unfolded configuredFor_def]
  by (simp add: reconcileWithTmpfile_def Let_def configuredFor_def)

lemma tmpfile_register_failed:
  assumes "Write e (Kubeconfig (Spec cr)) = None"
    and "LoadKubeClusterConfigFromFile e (Kubeconfig (Spec cr)) = Inr cfg0"
    and "Validate e (configuredFor cr cfg0) = None"
    and "RegisterByVelaSecret e (configuredFor cr cfg0) = Some er"
  shows "reconcileWithTmpfile e cr (resolvedClusterName cr) cs =
    failedExit e cr (''Failed to register cluster: '' @ Error er)
      \<lparr>Requeue = False, RequeueAfter = 30 * Second\<rparr>
      (cs @ [WriteCall (Kubeconfig (Spec cr)), CloseCall, LoadCall (Kubeconfig (Spec cr)),
             ValidateCall (configuredFor cr cfg0), RegisterCall (configuredFor cr cfg0)])
      [(er, ''Failed to register cluster'')]"
  using assms(1,2) assms(3,4) [unfolded configuredFor_def]
  by (simp add: reconcileWithTmpfile_def Let_def configuredFor_def)

lemma configuredFor_frame:
  "cfg_AuthInfo (configuredFor cr cfg0) = cfg_AuthInfo cfg0"
  "cfg_Cluster (configuredFor cr cfg0) = cfg_Cluster cfg0"
  by (simp_all add: configuredFor_def SetClusterName_def SetCreateNamespace_def)

lemma tmpfile_registered:
  assumes "Write e (Kubeconfig (Spec cr)) = None"
    and "LoadKubeClusterConfigFromFile e (Kubeconfig (Spec cr)) = Inr cfg0"
    and "Validate e (configuredFor cr cfg0) = None"
    and "RegisterByVelaSecret e (configuredFor cr cfg0) = None"
  shows "reconcileWithTmpfile e cr (resolvedClusterName cr) cs =
    \<lparr>result = Result_empty, err = StatusUpdate e (readyProjection e cr cfg0),
     calls = cs @ [WriteCall (Kubeconfig (Spec cr)), CloseCall, LoadCall (Kubeconfig (Spec cr)),
                   ValidateCall (configuredFor cr cfg0), RegisterCall (configuredFor cr cfg0),
                   StatusUpdateCall (readyProjection e cr cfg0)],
     logs = (case StatusUpdate e (readyProjection e cr cfg0) of
               Some er \<Rightarrow> [(er, ''Failed to update status to Ready'')] | None \<Rightarrow> []),
     object = Some (readyProjection e cr cfg0)\<rparr>"
proof -
  have ready: "cr\<lparr>Status := (Status cr)\<lparr>
        Phase := ClusterRegistrationPhaseReady,
        Message := ''Cluster successfully registered'',
        ObservedGeneration := Generation cr,
        LastReconcileTime := Some (Clock e 0),
        ClusterInfo := Some \<lparr>Endpoint = Server (cfg_Cluster (configuredFor cr cfg0)),
          CredentialType = (if length (Token (cfg_AuthInfo (configuredFor cr cfg0))) > 0
                               \<or> Exec (cfg_AuthInfo (configuredFor cr cfg0)) \<noteq> None
                            then ''ServiceAccountToken'' else ''X509Certificate''),
          Version = ''''\<rparr>,
        Conditions := [(Available (Clock e 1))\<lparr>cond_Message :=
          ''Cluster successfully registered and ready''\<rparr>]\<rparr>\<rparr>
      = readyProjection e cr cfg0"
    by (simp add: readyProjection_def configuredFor_frame inferredCredentialType_def
          Available_def ClusterRegistrationPhaseReady_def)
  show ?thesis
  proof (cases "StatusUpdate e (readyProjection e cr cfg0)")
    case None
    with assms(1,2) assms(3,4) [unfolded configuredFor_def] ready [unfolded configuredFor_def]
    show ?thesis
      by (simp add: reconcileWithTmpfile_def Let_def configuredFor_def)
  next
    case (Some er)
    with assms(1,2) assms(3,4) [unfolded configuredFor_def] ready [unfolded configuredFor_def]
    show ?thesis
      by (simp add: reconcileWithTmpfile_def Let_def configuredFor_def)
  qed
qed

lemma Reconcile_deleted_absent:
  assumes "Get e = Inr cr" and "\<not> IsZero (DeletionTimestamp cr)"
    and "\<not> ContainsFinalizer cr clusterRegistrationFinalizer"
  shows "Reconcile e =
    \<lparr>result = Result_empty, err = None, calls = [GetCall], logs = [], object = Some cr\<rparr>"
  by (simp add: Reconcile_deleted [OF assms(1,2)] handleDeletion_absent [OF assms(3)])

lemma Reconcile_detach_failed:
  assumes "Get e = Inr cr" and "\<not> IsZero (DeletionTimestamp cr)"
    and "ContainsFinalizer cr clusterRegistrationFinalizer"
    and "DetachCluster e (resolvedClusterName cr) = Some er" and "\<not> IsNotFound er"
  shows "Reconcile e =
    \<lparr>result = Result_empty, err = Some er,
     calls = [GetCall, DetachCall (resolvedClusterName cr)],
     logs = [(er, ''Failed to detach cluster'')], object = Some cr\<rparr>"
  by (simp add: Reconcile_deleted [OF assms(1,2)] handleDeletion_detach_failed [OF assms(3-5)])

lemma Reconcile_detached:
  assumes "Get e = Inr cr" and "\<not> IsZero (DeletionTimestamp cr)"
    and "ContainsFinalizer cr clusterRegistrationFinalizer"
    and "DetachCluster e (resolvedClusterName cr) = None
         \<or> (\<exists>er. DetachCluster e (resolvedClusterName cr) = Some er \<and> IsNotFound er)"
  shows "Reconcile e =
    \<lparr>result = Result_empty,
     err = Update e (RemoveFinalizer cr clusterRegistrationFinalizer),
     calls = [GetCall, DetachCall (resolvedClusterName cr),
              UpdateCall (RemoveFinalizer cr clusterRegistrationFinalizer)],
     logs = (case Update e (RemoveFinalizer cr clusterRegistrationFinalizer) of
               Some er \<Rightarrow> [(er, ''Failed to remove finalizer'')] | None \<Rightarrow> []),
     object = Some (RemoveFinalizer cr clusterRegistrationFinalizer)\<rparr>"
  by (simp add: Reconcile_deleted [OF assms(1,2)] handleDeletion_detached [OF assms(3,4)])

lemma Reconcile_reserved_outcome:
  assumes "Get e = Inr cr" and "forwardPath cr"
    and "resolvedClusterName cr = ClusterLocalName"
  shows "Reconcile e =
    failedOutcome e cr ''cluster name cannot be 'local', it is reserved'' Result_empty
      [GetCall] [] []"
  by (simp add: Reconcile_reserved [OF assms] failedExit_eq failedOutcome_def)

lemma Reconcile_create_failed_outcome:
  assumes "Get e = Inr cr" and "registrationStage cr" and "CreateTemp e = Some er"
  shows "Reconcile e =
    failedOutcome e cr (''Failed to create temporary file: '' @ Error er) Result_empty
      [GetCall, CreateTempCall] [] [(er, ''Failed to create temporary kubeconfig file'')]"
  by (simp add: Reconcile_create_failed [OF assms] failedExit_eq failedOutcome_def)

lemma Reconcile_write_failed:
  assumes "Get e = Inr cr" and "registrationStage cr" and "CreateTemp e = None"
    and "Write e (Kubeconfig (Spec cr)) = Some er"
  shows "Reconcile e =
    failedOutcome e cr (''Failed to write kubeconfig: '' @ Error er) Result_empty
      [GetCall, CreateTempCall, WriteCall (Kubeconfig (Spec cr))] [RemoveCall]
      [(er, ''Failed to write kubeconfig to temporary file'')]"
  by (simp add: Reconcile_tmpfile [OF assms(1-3)] tmpfile_write_failed [OF assms(4)]
        failedExit_eq failedOutcome_def)

lemma Reconcile_load_failed:
  assumes "Get e = Inr cr" and "registrationStage cr" and "CreateTemp e = None"
    and "Write e (Kubeconfig (Spec cr)) = None"
    and "LoadKubeClusterConfigFromFile e (Kubeconfig (Spec cr)) = Inl er"
  shows "Reconcile e =
    failedOutcome e cr (''Failed to load kubeconfig: '' @ Error er) Result_empty
      [GetCall, CreateTempCall, WriteCall (Kubeconfig (Spec cr)), CloseCall,
       LoadCall (Kubeconfig (Spec cr))] [RemoveCall]
      [(er, ''Failed to load kubeconfig'')]"
  by (simp add: Reconcile_tmpfile [OF assms(1-3)] tmpfile_load_failed [OF assms(4,5)]
        failedExit_eq failedOutcome_def)

lemma Reconcile_validate_failed:
  assumes "Get e = Inr cr" and "registrationStage cr" and "CreateTemp e = None"
    and "Write e (Kubeconfig (Spec cr)) = None"
    and "LoadKubeClusterConfigFromFile e (Kubeconfig (Spec cr)) = Inr cfg0"
    and "Validate e (configuredFor cr cfg0) = Some er"
  shows "Reconcile e =
    failedOutcome e cr (''Validation failed: '' @ Error er) Result_empty
      [GetCall, CreateTempCall, WriteCall (Kubeconfig (Spec cr)), CloseCall,
       LoadCall (Kubeconfig (Spec cr)), ValidateCall (configuredFor cr cfg0)] [RemoveCall]
      [(er, ''Cluster configuration validation failed'')]"
  by (simp add: Reconcile_tmpfile [OF assms(1-3)] tmpfile_validate_failed [OF assms(4-6)]
        failedExit_eq failedOutcome_def)

lemma Reconcile_register_failed:
  assumes "Get e = Inr cr" and "registrationStage cr" and "CreateTemp e = None"
    and "Write e (Kubeconfig (Spec cr)) = None"
    and "LoadKubeClusterConfigFromFile e (Kubeconfig (Spec cr)) = Inr cfg0"
    and "Validate e (configuredFor cr cfg0) = None"
    and "RegisterByVelaSecret e (configuredFor cr cfg0) = Some er"
  shows "Reconcile e =
    failedOutcome e cr (''Failed to register cluster: '' @ Error er)
      \<lparr>Requeue = False, RequeueAfter = 30 * Second\<rparr>
      [GetCall, CreateTempCall, WriteCall (Kubeconfig (Spec cr)), CloseCall,
       LoadCall (Kubeconfig (Spec cr)), ValidateCall (configuredFor cr cfg0),
       RegisterCall (configuredFor cr cfg0)] [RemoveCall]
      [(er, ''Failed to register cluster'')]"
  by (simp add: Reconcile_tmpfile [OF assms(1-3)] tmpfile_register_failed [OF assms(4-7)]
        failedExit_eq failedOutcome_def)

lemma Reconcile_registered:
  assumes "Get e = Inr cr" and "registrationStage cr" and "CreateTemp e = None"
    and "Write e (Kubeconfig (Spec cr)) = None"
    and "LoadKubeClusterConfigFromFile e (Kubeconfig (Spec cr)) = Inr cfg0"
    and "Validate e (configuredFor cr cfg0) = None"
    and "RegisterByVelaSecret e (configuredFor cr cfg0) = None"
  shows "Reconcile e =
    \<lparr>result = Result_empty, err = StatusUpdate e (readyProjection e cr cfg0),
     calls = [GetCall, CreateTempCall, WriteCall (Kubeconfig (Spec cr)), CloseCall,
              LoadCall (Kubeconfig (Spec cr)), ValidateCall (configuredFor cr cfg0),
              RegisterCall (configuredFor cr cfg0),
              StatusUpdateCall (readyProjection e cr cfg0), RemoveCall],
     logs = (case StatusUpdate e (readyProjection e cr cfg0) of
               Some er \<Rightarrow> [(er, ''Failed to update status to Ready'')] | None \<Rightarrow> []),
     object = Some (readyProjection e cr cfg0)\<rparr>"
  by (simp add: Reconcile_tmpfile [OF assms(1-3)] tmpfile_registered [OF assms(4-7)])

lemma Reconcile_paths [case_names deleted_absent detach_failed detached install fixed reserved
    announce create_failed write_failed load_failed validate_failed register_failed registered]:
  obtains
    "\<not> IsZero (DeletionTimestamp cr)" "\<not> ContainsFinalizer cr clusterRegistrationFinalizer"
  | er where "\<not> IsZero (DeletionTimestamp cr)"
      "ContainsFinalizer cr clusterRegistrationFinalizer"
      "DetachCluster e (resolvedClusterName cr) = Some er" "\<not> IsNotFound er"
  | "\<not> IsZero (DeletionTimestamp cr)" "ContainsFinalizer cr clusterRegistrationFinalizer"
      "DetachCluster e (resolvedClusterName cr) = None
       \<or> (\<exists>er. DetachCluster e (resolvedClusterName cr) = Some er \<and> IsNotFound er)"
  | "IsZero (DeletionTimestamp cr)" "\<not> ContainsFinalizer cr clusterRegistrationFinalizer"
  | "IsZero (DeletionTimestamp cr)" "ContainsFinalizer cr clusterRegistrationFinalizer"
      "Phase (Status cr) = ClusterRegistrationPhaseReady"
      "ObservedGeneration (Status cr) = Generation cr"
  | "forwardPath cr" "resolvedClusterName cr = ClusterLocalName"
  | "forwardPath cr" "resolvedClusterName cr \<noteq> ClusterLocalName"
      "Phase (Status cr) \<noteq> ClusterRegistrationPhaseProgressing"
      "Phase (Status cr) \<noteq> ClusterRegistrationPhaseReady"
  | er where "registrationStage cr" "CreateTemp e = Some er"
  | er where "registrationStage cr" "CreateTemp e = None"
      "Write e (Kubeconfig (Spec cr)) = Some er"
  | er where "registrationStage cr" "CreateTemp e = None"
      "Write e (Kubeconfig (Spec cr)) = None"
      "LoadKubeClusterConfigFromFile e (Kubeconfig (Spec cr)) = Inl er"
  | cfg0 er where "registrationStage cr" "CreateTemp e = None"
      "Write e (Kubeconfig (Spec cr)) = None"
      "LoadKubeClusterConfigFromFile e (Kubeconfig (Spec cr)) = Inr cfg0"
      "Validate e (configuredFor cr cfg0) = Some er"
  | cfg0 er where "registrationStage cr" "CreateTemp e = None"
      "Write e (Kubeconfig (Spec cr)) = None"
      "LoadKubeClusterConfigFromFile e (Kubeconfig (Spec cr)) = Inr cfg0"
      "Validate e (configuredFor cr cfg0) = None"
      "RegisterByVelaSecret e (configuredFor cr cfg0) = Some er"
  | cfg0 where "registrationStage cr" "CreateTemp e = None"
      "Write e (Kubeconfig (Spec cr)) = None"
      "LoadKubeClusterConfigFromFile e (Kubeconfig (Spec cr)) = Inr cfg0"
      "Validate e (configuredFor cr cfg0) = None"
      "RegisterByVelaSecret e (configuredFor cr cfg0) = None"
proof (cases "IsZero (DeletionTimestamp cr)")
  case False
  then show ?thesis
    using that(1-3) by (cases "DetachCluster e (resolvedClusterName cr)") blast+
next
  case zero: True
  show ?thesis
  proof (cases "forwardPath cr")
    case False
    with zero show ?thesis
      using that(4,5) unfolding forwardPath_def by blast
  next
    case fwd: True
    show ?thesis
    proof (cases "registrationStage cr")
      case False
      with fwd show ?thesis
        using that(6,7) unfolding registrationStage_def by blast
    next
      case stage: True
      show ?thesis
      proof (cases "CreateTemp e")
        case (Some er)
        with stage show ?thesis by (rule that(8))
      next
        case ct: None
        show ?thesis
        proof (cases "Write e (Kubeconfig (Spec cr))")
          case (Some er)
          with stage ct show ?thesis by (rule that(9))
        next
          case wr: None
          show ?thesis
          proof (cases "LoadKubeClusterConfigFromFile e (Kubeconfig (Spec cr))")
            case (Inl er)
            with stage ct wr show ?thesis by (rule that(10))
          next
            case ld: (Inr cfg0)
            show ?thesis
            proof (cases "Validate e (configuredFor cr cfg0)")
              case (Some er)
              with stage ct wr ld show ?thesis by (rule that(11))
            next
              case vl: None
              show ?thesis
              proof (cases "RegisterByVelaSecret e (configuredFor cr cfg0)")
                case (Some er)
                with stage ct wr ld vl show ?thesis by (rule that(12))
              next
                case None
                with stage ct wr ld vl show ?thesis by (rule that(13))
              qed
            qed
          qed
        qed
      qed
    qed
  qed
qed

section \<open>Helper facts shared by the claims\<close>

lemma failed_object:
  "fst (updateFailedStatus e cr m) =
     cr\<lparr>Status := (Status cr)\<lparr>Phase := ''Failed'', Message := m,
       ObservedGeneration := Generation cr, LastReconcileTime := Some (Clock e 0),
       Conditions := [\<lparr>cond_Type = ''Ready'', cond_Status = ''False'',
                       cond_LastTransitionTime = Clock e 1, cond_Reason = ''Unavailable'',
                       cond_Message = m\<rparr>]\<rparr>\<rparr>"
  by (simp add: updateFailedStatus_def Let_def Unavailable_def ClusterRegistrationPhaseFailed_def)

text \<open>A pass that calls the Registrar went through every gate and every earlier step.\<close>

lemma register_call_path:
  assumes "Get e = Inr cr" and "RegisterCall cfg \<in> set (calls (Reconcile e))"
  obtains cfg0 where "registrationStage cr" "CreateTemp e = None"
    "Write e (Kubeconfig (Spec cr)) = None"
    "LoadKubeClusterConfigFromFile e (Kubeconfig (Spec cr)) = Inr cfg0"
    "Validate e (configuredFor cr cfg0) = None" "cfg = configuredFor cr cfg0"
proof (cases rule: Reconcile_paths [where cr = cr and e = e])
  case deleted_absent
  with assms show ?thesis by (simp add: Reconcile_deleted_absent)
next
  case (detach_failed er)
  with assms show ?thesis by (simp add: Reconcile_detach_failed)
next
  case detached
  with assms show ?thesis by (simp add: Reconcile_detached)
next
  case install
  with assms show ?thesis by (simp add: Reconcile_install)
next
  case fixed
  with assms show ?thesis by (simp add: Reconcile_fixed)
next
  case reserved
  with assms show ?thesis by (simp add: Reconcile_reserved_outcome failedOutcome_def)
next
  case announce
  with assms show ?thesis by (simp add: Reconcile_announce)
next
  case (create_failed er)
  with assms show ?thesis by (simp add: Reconcile_create_failed_outcome failedOutcome_def)
next
  case (write_failed er)
  with assms show ?thesis by (simp add: Reconcile_write_failed failedOutcome_def)
next
  case (load_failed er)
  with assms show ?thesis by (simp add: Reconcile_load_failed failedOutcome_def)
next
  case (validate_failed cfg0 er)
  with assms show ?thesis by (simp add: Reconcile_validate_failed failedOutcome_def)
next
  case (register_failed cfg0 er)
  with assms(2) have "cfg = configuredFor cr cfg0"
    by (simp add: Reconcile_register_failed [OF assms(1)] failedOutcome_def)
  with register_failed show ?thesis by (intro that [of cfg0])
next
  case (registered cfg0)
  with assms(2) have "cfg = configuredFor cr cfg0"
    by (simp add: Reconcile_registered [OF assms(1)])
  with registered show ?thesis by (intro that [of cfg0])
qed

lemma fixed_point_pass:
  assumes "IsZero (DeletionTimestamp cr)"
    and "ContainsFinalizer cr clusterRegistrationFinalizer"
    and "Phase (Status cr) = ClusterRegistrationPhaseReady"
    and "ObservedGeneration (Status cr) = Generation cr"
  shows "pass e (Some cr) = Some cr"
proof -
  have "Get (e\<lparr>Get := fetch (Some cr)\<rparr>) = Inr cr" by (simp add: fetch_def)
  from Reconcile_fixed [OF this assms]
  show ?thesis by (simp add: pass_def persist_def)
qed

lemma fixed_point_run:
  assumes "IsZero (DeletionTimestamp cr)"
    and "ContainsFinalizer cr clusterRegistrationFinalizer"
    and "Phase (Status cr) = ClusterRegistrationPhaseReady"
    and "ObservedGeneration (Status cr) = Generation cr"
  shows "run es (Some cr) = Some cr"
  by (induction es) (simp_all add: fixed_point_pass [OF assms])

lemma statusWrites_mem:
  "w \<in> set (statusWrites cs) \<longleftrightarrow> StatusUpdateCall w \<in> set cs"
  by (induction cs rule: statusWrites.induct) auto

text \<open>
  The status writes of a pass: none, or one, which is the failure projection for some
  message, the phase announcement, or the success projection for the loaded configuration.
\<close>

lemma status_shape [case_names none failed announced ready]:
  assumes "Get e = Inr cr"
  obtains "statusWrites (calls (Reconcile e)) = []"
  | m res cs after ls where
      "\<And>answer. Reconcile (e\<lparr>StatusUpdate := answer\<rparr>)
                = failedOutcome (e\<lparr>StatusUpdate := answer\<rparr>) cr m res cs after ls"
      "statusWrites cs = []" "statusWrites after = []"
  | "statusWrites (calls (Reconcile e)) = [announced cr]"
      "object (Reconcile e) = Some (announced cr)"
  | cfg0 where "statusWrites (calls (Reconcile e)) = [readyProjection e cr cfg0]"
      "object (Reconcile e) = Some (readyProjection e cr cfg0)"
proof (cases rule: Reconcile_paths [where cr = cr and e = e])
  case deleted_absent
  with assms show ?thesis by (intro that(1)) (simp add: Reconcile_deleted_absent)
next
  case (detach_failed er)
  with assms show ?thesis by (intro that(1)) (simp add: Reconcile_detach_failed)
next
  case detached
  with assms show ?thesis by (intro that(1)) (simp add: Reconcile_detached)
next
  case install
  with assms show ?thesis by (intro that(1)) (simp add: Reconcile_install)
next
  case fixed
  with assms show ?thesis by (intro that(1)) (simp add: Reconcile_fixed)
next
  case reserved
  show ?thesis
  proof (rule that(2))
    show "Reconcile (e\<lparr>StatusUpdate := answer\<rparr>)
      = failedOutcome (e\<lparr>StatusUpdate := answer\<rparr>) cr
          ''cluster name cannot be 'local', it is reserved'' Result_empty [GetCall] [] []" for answer
      using assms reserved by (intro Reconcile_reserved_outcome) simp_all
  qed simp_all
next
  case announce
  with assms show ?thesis by (intro that(3)) (simp_all add: Reconcile_announce)
next
  case (create_failed er)
  show ?thesis
  proof (rule that(2))
    show "Reconcile (e\<lparr>StatusUpdate := answer\<rparr>)
      = failedOutcome (e\<lparr>StatusUpdate := answer\<rparr>) cr
          (''Failed to create temporary file: '' @ Error er) Result_empty
          [GetCall, CreateTempCall] [] [(er, ''Failed to create temporary kubeconfig file'')]" for answer
      using assms create_failed by (intro Reconcile_create_failed_outcome) simp_all
  qed simp_all
next
  case (write_failed er)
  show ?thesis
  proof (rule that(2))
    show "Reconcile (e\<lparr>StatusUpdate := answer\<rparr>)
      = failedOutcome (e\<lparr>StatusUpdate := answer\<rparr>) cr
          (''Failed to write kubeconfig: '' @ Error er) Result_empty
          [GetCall, CreateTempCall, WriteCall (Kubeconfig (Spec cr))] [RemoveCall]
          [(er, ''Failed to write kubeconfig to temporary file'')]" for answer
      using assms write_failed by (intro Reconcile_write_failed) simp_all
  qed simp_all
next
  case (load_failed er)
  show ?thesis
  proof (rule that(2))
    show "Reconcile (e\<lparr>StatusUpdate := answer\<rparr>)
      = failedOutcome (e\<lparr>StatusUpdate := answer\<rparr>) cr
          (''Failed to load kubeconfig: '' @ Error er) Result_empty
          [GetCall, CreateTempCall, WriteCall (Kubeconfig (Spec cr)), CloseCall,
           LoadCall (Kubeconfig (Spec cr))] [RemoveCall]
          [(er, ''Failed to load kubeconfig'')]" for answer
      using assms load_failed by (intro Reconcile_load_failed) simp_all
  qed simp_all
next
  case (validate_failed cfg0 er)
  show ?thesis
  proof (rule that(2))
    show "Reconcile (e\<lparr>StatusUpdate := answer\<rparr>)
      = failedOutcome (e\<lparr>StatusUpdate := answer\<rparr>) cr
          (''Validation failed: '' @ Error er) Result_empty
          [GetCall, CreateTempCall, WriteCall (Kubeconfig (Spec cr)), CloseCall,
           LoadCall (Kubeconfig (Spec cr)), ValidateCall (configuredFor cr cfg0)] [RemoveCall]
          [(er, ''Cluster configuration validation failed'')]" for answer
      using assms validate_failed by (intro Reconcile_validate_failed) simp_all
  qed simp_all
next
  case (register_failed cfg0 er)
  show ?thesis
  proof (rule that(2))
    show "Reconcile (e\<lparr>StatusUpdate := answer\<rparr>)
      = failedOutcome (e\<lparr>StatusUpdate := answer\<rparr>) cr
          (''Failed to register cluster: '' @ Error er)
          \<lparr>Requeue = False, RequeueAfter = 30 * Second\<rparr>
          [GetCall, CreateTempCall, WriteCall (Kubeconfig (Spec cr)), CloseCall,
           LoadCall (Kubeconfig (Spec cr)), ValidateCall (configuredFor cr cfg0),
           RegisterCall (configuredFor cr cfg0)] [RemoveCall]
          [(er, ''Failed to register cluster'')]" for answer
      using assms register_failed by (intro Reconcile_register_failed) simp_all
  qed simp_all
next
  case (registered cfg0)
  with assms show ?thesis by (intro that(4) [of cfg0]) (simp_all add: Reconcile_registered)
qed

lemma failedOutcome_sel:
  "result (failedOutcome e cr m res cs after ls) = res"
  "err (failedOutcome e cr m res cs after ls) = None"
  "calls (failedOutcome e cr m res cs after ls)
     = cs @ StatusUpdateCall (fst (updateFailedStatus e cr m)) # after"
  "object (failedOutcome e cr m res cs after ls) = Some (fst (updateFailedStatus e cr m))"
  by (simp_all add: failedOutcome_def)

lemma statusWrites_append:
  "statusWrites (cs @ cs') = statusWrites cs @ statusWrites cs'"
  by (induction cs rule: statusWrites.induct) simp_all

lemma failed_object_answer:
  "fst (updateFailedStatus (e\<lparr>StatusUpdate := answer\<rparr>) cr m) = fst (updateFailedStatus e cr m)"
  by (simp add: failed_object)

text \<open>
  A status write of a pass is the announcement, the success projection or the failure
  projection; in the last case the pass returns no error, whatever the write answers.
\<close>

lemma status_write_cases:
  assumes "Get e = Inr cr" and "StatusUpdateCall w \<in> set (calls (Reconcile e))"
  shows "object (Reconcile e) = Some w
       \<and> (w = announced cr
          \<or> (\<exists>cfg0. w = readyProjection e cr cfg0)
          \<or> (\<exists>m. w = fst (updateFailedStatus e cr m)
                \<and> (\<forall>answer. err (Reconcile (e\<lparr>StatusUpdate := answer\<rparr>)) = None
                      \<and> result (Reconcile (e\<lparr>StatusUpdate := answer\<rparr>)) = result (Reconcile e)
                      \<and> calls (Reconcile (e\<lparr>StatusUpdate := answer\<rparr>)) = calls (Reconcile e)
                      \<and> object (Reconcile (e\<lparr>StatusUpdate := answer\<rparr>)) = object (Reconcile e))))"
proof -
  from assms(2) have mem: "w \<in> set (statusWrites (calls (Reconcile e)))"
    by (simp add: statusWrites_mem)
  from assms(1) show ?thesis
  proof (cases rule: status_shape)
    case none
    with mem show ?thesis by simp
  next
    case (failed m res cs after ls)
    from failed(1) [of "StatusUpdate e"]
    have R: "Reconcile e = failedOutcome e cr m res cs after ls" by simp
    from mem failed(2,3) have w: "w = fst (updateFailedStatus e cr m)"
      by (simp add: R failedOutcome_sel statusWrites_append)
    have "\<forall>answer. err (Reconcile (e\<lparr>StatusUpdate := answer\<rparr>)) = None
                      \<and> result (Reconcile (e\<lparr>StatusUpdate := answer\<rparr>)) = result (Reconcile e)
                      \<and> calls (Reconcile (e\<lparr>StatusUpdate := answer\<rparr>)) = calls (Reconcile e)
                      \<and> object (Reconcile (e\<lparr>StatusUpdate := answer\<rparr>)) = object (Reconcile e)"
      by (simp add: failed(1) R failedOutcome_sel failed_object_answer)
    moreover have "object (Reconcile e) = Some w"
      by (simp add: R w failedOutcome_sel)
    ultimately show ?thesis using w by blast
  next
    case announced
    with mem show ?thesis by simp
  next
    case (ready cfg0)
    with mem show ?thesis by auto
  qed
qed

text \<open>
  What a sequence of calls leaves in the store, if anything, has the old status or a
  written one; and it leaves a record when no written object has a deletion marker.
\<close>

lemma foldl_persist_None: "foldl (persist e) None cs = None"
  by (induction cs) (simp_all add: persist_def)

lemma foldl_persist_status:
  assumes "foldl (persist e) (Some cr) cs = Some cr'"
  shows "Status cr' = Status cr
         \<or> (\<exists>w. StatusUpdateCall w \<in> set cs \<and> Status cr' = Status w)"
  using assms
proof (induction cs arbitrary: cr)
  case Nil
  then show ?case by simp
next
  case (Cons c cs)
  have "persist e (Some cr) c = None
      \<or> (\<exists>cr1. persist e (Some cr) c = Some cr1
            \<and> (Status cr1 = Status cr \<or> (\<exists>w. c = StatusUpdateCall w \<and> Status cr1 = Status w)))"
    by (cases c) (simp_all add: persist_def)
  then show ?case
  proof
    assume "persist e (Some cr) c = None"
    with Cons.prems show ?thesis by (simp add: foldl_persist_None)
  next
    assume "\<exists>cr1. persist e (Some cr) c = Some cr1
            \<and> (Status cr1 = Status cr \<or> (\<exists>w. c = StatusUpdateCall w \<and> Status cr1 = Status w))"
    then obtain cr1 where s: "persist e (Some cr) c = Some cr1"
      and st: "Status cr1 = Status cr \<or> (\<exists>w. c = StatusUpdateCall w \<and> Status cr1 = Status w)"
      by blast
    from Cons.prems s have "foldl (persist e) (Some cr1) cs = Some cr'" by simp
    from Cons.IH [OF this] have "Status cr' = Status cr1
              \<or> (\<exists>w. StatusUpdateCall w \<in> set cs \<and> Status cr' = Status w)" .
    with st show ?thesis by auto
  qed
qed

lemma foldl_persist_unmarked:
  assumes "\<forall>w. UpdateCall w \<in> set cs \<longrightarrow> IsZero (DeletionTimestamp w)"
    and "IsZero (DeletionTimestamp cr)"
  shows "\<exists>cr'. foldl (persist e) (Some cr) cs = Some cr' \<and> IsZero (DeletionTimestamp cr')"
  using assms
proof (induction cs arbitrary: cr)
  case Nil
  then show ?case by simp
next
  case (Cons c cs)
  have "\<exists>cr1. persist e (Some cr) c = Some cr1 \<and> IsZero (DeletionTimestamp cr1)"
    using Cons.prems by (cases c) (auto simp: persist_def)
  then obtain cr1 where s: "persist e (Some cr) c = Some cr1"
    and z: "IsZero (DeletionTimestamp cr1)" by blast
  from Cons.prems(1) have "\<forall>w. UpdateCall w \<in> set cs \<longrightarrow> IsZero (DeletionTimestamp w)"
    by simp
  from Cons.IH [OF this z] s show ?case by simp
qed

text \<open>The only records a pass writes with \<^verbatim>\<open>r.Update\<close> differ from the fetched one in the finalizers.\<close>

lemma update_call_marker:
  assumes "Get e = Inr cr" and "UpdateCall w \<in> set (calls (Reconcile e))"
  shows "DeletionTimestamp w = DeletionTimestamp cr"
proof (cases rule: Reconcile_paths [where cr = cr and e = e])
  case deleted_absent
  with assms show ?thesis by (simp add: Reconcile_deleted_absent)
next
  case (detach_failed er)
  with assms show ?thesis by (simp add: Reconcile_detach_failed)
next
  case detached
  with assms show ?thesis by (simp add: Reconcile_detached RemoveFinalizer_def)
next
  case install
  with assms show ?thesis by (auto simp: Reconcile_install AddFinalizer_def)
next
  case fixed
  with assms show ?thesis by (simp add: Reconcile_fixed)
next
  case reserved
  with assms show ?thesis by (simp add: Reconcile_reserved_outcome failedOutcome_def)
next
  case announce
  with assms show ?thesis by (simp add: Reconcile_announce)
next
  case (create_failed er)
  with assms show ?thesis by (simp add: Reconcile_create_failed_outcome failedOutcome_def)
next
  case (write_failed er)
  with assms show ?thesis by (simp add: Reconcile_write_failed failedOutcome_def)
next
  case (load_failed er)
  with assms show ?thesis by (simp add: Reconcile_load_failed failedOutcome_def)
next
  case (validate_failed cfg0 er)
  with assms show ?thesis by (simp add: Reconcile_validate_failed failedOutcome_def)
next
  case (register_failed cfg0 er)
  with assms show ?thesis by (simp add: Reconcile_register_failed failedOutcome_def)
next
  case (registered cfg0)
  with assms show ?thesis by (simp add: Reconcile_registered)
qed

lemma pass_None: "pass e None = None"
  by (simp add: pass_def foldl_persist_None)

lemmas eval_defs = pass_def persist_def fetch_def Reconcile_def reconcileWithTmpfile_def
  failedExit_def updateFailedStatus_def handleDeletion_def Let_def

lemma run_None: "run es None = None"
  by (induction es) (simp_all add: pass_None)

text \<open>A record with no deletion marker stays in the store, with no deletion marker.\<close>

lemma pass_unmarked:
  assumes "IsZero (DeletionTimestamp cr)"
  shows "\<exists>cr'. pass e (Some cr) = Some cr' \<and> IsZero (DeletionTimestamp cr')"
proof -
  let ?e = "e\<lparr>Get := fetch (Some cr)\<rparr>"
  have g: "Get ?e = Inr cr" by (simp add: fetch_def)
  have "\<forall>w. UpdateCall w \<in> set (calls (Reconcile ?e)) \<longrightarrow> IsZero (DeletionTimestamp w)"
    using update_call_marker [OF g] assms by simp
  from foldl_persist_unmarked [OF this assms] show ?thesis by (simp add: pass_def)
qed

lemma run_unmarked:
  assumes "IsZero (DeletionTimestamp cr)"
  shows "\<exists>cr'. run es (Some cr) = Some cr' \<and> IsZero (DeletionTimestamp cr')"
  using assms
proof (induction es arbitrary: cr)
  case Nil
  then show ?case by simp
next
  case (Cons e es)
  from pass_unmarked [OF Cons.prems] obtain cr1 where "pass e (Some cr) = Some cr1"
    "IsZero (DeletionTimestamp cr1)" by blast
  with Cons.IH [of cr1] show ?case by simp
qed

text \<open>The condition list of what a pass, or a run, leaves in the store.\<close>

lemma pass_conditions:
  assumes "pass e (Some cr) = Some cr'"
  shows "Conditions (Status cr') = Conditions (Status cr)
         \<or> length (Conditions (Status cr')) = 1"
proof -
  let ?e = "e\<lparr>Get := fetch (Some cr)\<rparr>"
  have g: "Get ?e = Inr cr" by (simp add: fetch_def)
  from assms have "foldl (persist e) (Some cr) (calls (Reconcile ?e)) = Some cr'"
    by (simp add: pass_def)
  from foldl_persist_status [OF this]
  show ?thesis
  proof
    assume "Status cr' = Status cr"
    then show ?thesis by simp
  next
    assume "\<exists>w. StatusUpdateCall w \<in> set (calls (Reconcile ?e)) \<and> Status cr' = Status w"
    then obtain w where w: "StatusUpdateCall w \<in> set (calls (Reconcile ?e))"
      and eq: "Status cr' = Status w" by blast
    from status_write_cases [OF g w]
    have "w = announced cr \<or> (\<exists>cfg0. w = readyProjection ?e cr cfg0)
        \<or> (\<exists>m. w = fst (updateFailedStatus ?e cr m))"
      by blast
    then have "Conditions (Status w) = Conditions (Status cr) \<or> length (Conditions (Status w)) = 1"
      by (auto simp: announced_def readyProjection_def failed_object)
    with eq show ?thesis by simp
  qed
qed

lemma run_conditions:
  assumes "run es (Some cr) = Some cr'"
  shows "Conditions (Status cr') = Conditions (Status cr)
         \<or> length (Conditions (Status cr')) = 1"
  using assms
proof (induction es arbitrary: cr)
  case Nil
  then show ?case by simp
next
  case (Cons e es)
  show ?case
  proof (cases "pass e (Some cr)")
    case None
    with Cons.prems show ?thesis by (simp add: run_None)
  next
    case (Some cr1)
    from pass_conditions [OF Some]
    have c1: "Conditions (Status cr1) = Conditions (Status cr)
        \<or> length (Conditions (Status cr1)) = 1" .
    from Cons.prems Some have "run es (Some cr1) = Some cr'" by simp
    from Cons.IH [OF this] have "Conditions (Status cr') = Conditions (Status cr1)
        \<or> length (Conditions (Status cr')) = 1" .
    with c1 show ?thesis by auto
  qed
qed

lemma register_needs_finalizer:
  assumes "RegisterCall cfg \<in> set (calls (Reconcile (e\<lparr>Get := fetch s\<rparr>)))"
  shows "\<exists>cr. s = Some cr \<and> IsZero (DeletionTimestamp cr)
           \<and> ContainsFinalizer cr clusterRegistrationFinalizer"
proof (cases s)
  case None
  then have "Get (e\<lparr>Get := fetch s\<rparr>) = Inl (NotFoundError ''not found'')"
    by (simp add: fetch_def)
  from Reconcile_get_failed [OF this] assms show ?thesis by simp
next
  case (Some cr)
  then have g: "Get (e\<lparr>Get := fetch s\<rparr>) = Inr cr" by (simp add: fetch_def)
  from g assms have "registrationStage cr" by (rule register_call_path)
  with Some show ?thesis by (simp add: registrationStage_def forwardPath_def)
qed

lemma announced_stage:
  assumes "IsZero (DeletionTimestamp cr)"
    and "ContainsFinalizer cr clusterRegistrationFinalizer"
    and "resolvedClusterName cr \<noteq> ClusterLocalName"
  shows "registrationStage (announced cr)"
  using assms
  by (auto simp: registrationStage_def forwardPath_def announced_def resolvedClusterName_def
        ContainsFinalizer_def phase_defs split: if_splits)

lemma stage_loads:
  assumes "Get e = Inr cr" and "registrationStage cr" and "CreateTemp e = None"
    and "Write e (Kubeconfig (Spec cr)) = None"
  shows "LoadCall (Kubeconfig (Spec cr)) \<in> set (calls (Reconcile e))"
proof (cases "LoadKubeClusterConfigFromFile e (Kubeconfig (Spec cr))")
  case (Inl er)
  from Reconcile_load_failed [OF assms this] show ?thesis
    by (simp add: failedOutcome_def)
next
  case (Inr cfg0)
  note ld = this
  show ?thesis
  proof (cases "Validate e (configuredFor cr cfg0)")
    case (Some er)
    from Reconcile_validate_failed [OF assms ld this] show ?thesis
      by (simp add: failedOutcome_def)
  next
    case None
    note vl = this
    show ?thesis
    proof (cases "RegisterByVelaSecret e (configuredFor cr cfg0)")
      case (Some er)
      from Reconcile_register_failed [OF assms ld vl this] show ?thesis
        by (simp add: failedOutcome_def)
    next
      case None
      from Reconcile_registered [OF assms ld vl this] show ?thesis by simp
    qed
  qed
qed

lemma stage_registers:
  assumes "Get e = Inr cr" and "registrationStage cr" and "CreateTemp e = None"
    and "Write e (Kubeconfig (Spec cr)) = None"
    and "LoadKubeClusterConfigFromFile e (Kubeconfig (Spec cr)) = Inr cfg0"
    and "Validate e (configuredFor cr cfg0) = None"
  shows "RegisterCall (configuredFor cr cfg0) \<in> set (calls (Reconcile e))"
proof (cases "RegisterByVelaSecret e (configuredFor cr cfg0)")
  case (Some er)
  from Reconcile_register_failed [OF assms this] show ?thesis
    by (simp add: failedOutcome_def)
next
  case None
  from Reconcile_registered [OF assms this] show ?thesis by simp
qed

section \<open>The claims\<close>

subsection \<open>C1: the Ready fixed point\<close>

text \<open>
  C1. For a record that is Ready, whose observed generation is its generation, that has
  no deletion marker and carries the finalizer, \<open>Reconcile\<close> makes no call after fetching
  the record (no credential loading, no registration, no write), returns the empty result
  and no error, and leaves the object as fetched; delivering the stored record again,
  any number of times and whatever the collaborators would answer, leaves it unchanged.
\<close>

theorem ready_fixed_point_is_no_op:
  assumes "Get e = Inr cr" and "IsZero (DeletionTimestamp cr)"
    and "ContainsFinalizer cr clusterRegistrationFinalizer"
    and "Phase (Status cr) = ClusterRegistrationPhaseReady"
    and "ObservedGeneration (Status cr) = Generation cr"
  shows "Reconcile e =
           \<lparr>result = \<lparr>Requeue = False, RequeueAfter = 0\<rparr>, err = None, calls = [GetCall],
            logs = [], object = Some cr\<rparr>
         \<and> run es (Some cr) = Some cr"
  using Reconcile_fixed [OF assms] fixed_point_run [OF assms(2-5)]
  by (simp add: Result_empty_def)

text \<open>The fixed point at the example Ready record, delivered once and then three times.\<close>

theorem ready_fixed_point_is_no_op_witness:
  "Get (happyEnv readyRecord) = Inr readyRecord
   \<and> IsZero (DeletionTimestamp readyRecord)
   \<and> ContainsFinalizer readyRecord clusterRegistrationFinalizer
   \<and> Phase (Status readyRecord) = ClusterRegistrationPhaseReady
   \<and> ObservedGeneration (Status readyRecord) = Generation readyRecord
   \<and> Reconcile (happyEnv readyRecord) =
       \<lparr>result = \<lparr>Requeue = False, RequeueAfter = 0\<rparr>, err = None, calls = [GetCall], logs = [],
        object = Some readyRecord\<rparr>
   \<and> run [happyEnv newRecord, happyEnv failedRecord, happyEnv readyRecord] (Some readyRecord)
       = Some readyRecord"
proof -
  have h: "Get (happyEnv readyRecord) = Inr readyRecord"
    "IsZero (DeletionTimestamp readyRecord)"
    "ContainsFinalizer readyRecord clusterRegistrationFinalizer"
    "Phase (Status readyRecord) = ClusterRegistrationPhaseReady"
    "ObservedGeneration (Status readyRecord) = Generation readyRecord"
    by (simp_all add: example_defs const_defs)
  from ready_fixed_point_is_no_op [OF h] h show ?thesis
    by simp
qed

subsection \<open>C2: a failed registration\<close>

text \<open>
  C2 as stated fails: at the example Progressing record, with a Registrar that answers
  ``conflict'', the pass writes a status whose phase is Failed, and returns the object
  with that phase.
\<close>

theorem registration_failure_marks_failed_counterexample:
  "Phase (Status progressingRecord) = ''Progressing''
   \<and> Get conflictEnv = Inr progressingRecord
   \<and> RegisterByVelaSecret conflictEnv registeredConfig = Some (OtherError ''conflict'')
   \<and> Reconcile conflictEnv =
       \<lparr>result = \<lparr>Requeue = False, RequeueAfter = 30000000000\<rparr>, err = None,
        calls =
          [GetCall, CreateTempCall, WriteCall ''clusters: [prod-west]'', CloseCall,
           LoadCall ''clusters: [prod-west]'', ValidateCall registeredConfig,
           RegisterCall registeredConfig,
           StatusUpdateCall (failedRecord\<lparr>Status := (Status failedRecord)\<lparr>
             Conditions := [\<lparr>cond_Type = ''Ready'', cond_Status = ''False'',
                          cond_LastTransitionTime = 1001, cond_Reason = ''Unavailable'',
                          cond_Message = ''Failed to register cluster: conflict''\<rparr>],
             LastReconcileTime := Some 1000\<rparr>\<rparr>),
           RemoveCall],
        logs = [(OtherError ''conflict'', ''Failed to register cluster'')],
        object = Some (failedRecord\<lparr>Status := (Status failedRecord)\<lparr>
             Conditions := [\<lparr>cond_Type = ''Ready'', cond_Status = ''False'',
                          cond_LastTransitionTime = 1001, cond_Reason = ''Unavailable'',
                          cond_Message = ''Failed to register cluster: conflict''\<rparr>],
             LastReconcileTime := Some 1000\<rparr>\<rparr>)\<rparr>
   \<and> Phase (Status failedRecord) = ''Failed''"
  by (simp add: conflictEnv_def Reconcile_def reconcileWithTmpfile_def failedExit_def
        updateFailedStatus_def Let_def example_defs const_defs)

text \<open>
  C2, amended. When the Registrar call of a pass fails with error \<open>er\<close>, \<open>Reconcile\<close>
  projects the failure like every other Failed exit (phase Failed, the message
  ``Failed to register cluster: '' followed by the error text, one Unavailable condition
  with that message, the observed generation set to the generation), makes that one
  status write, and returns to the dispatcher no error and a fixed retry delay of thirty
  seconds.
\<close>

theorem registration_failure_projects_failed_and_requeues:
  assumes "Get e = Inr cr" and "RegisterCall cfg \<in> set (calls (Reconcile e))"
    and "RegisterByVelaSecret e cfg = Some er"
  shows "let failed = cr\<lparr>Status := (Status cr)\<lparr>
             Phase := ''Failed'', Message := ''Failed to register cluster: '' @ Error er,
             ObservedGeneration := Generation cr, LastReconcileTime := Some (Clock e 0),
             Conditions := [\<lparr>cond_Type = ''Ready'', cond_Status = ''False'',
                             cond_LastTransitionTime = Clock e 1, cond_Reason = ''Unavailable'',
                             cond_Message = ''Failed to register cluster: '' @ Error er\<rparr>]\<rparr>\<rparr>
         in result (Reconcile e) = \<lparr>Requeue = False, RequeueAfter = 30 * Second\<rparr>
          \<and> err (Reconcile e) = None
          \<and> object (Reconcile e) = Some failed
          \<and> statusWrites (calls (Reconcile e)) = [failed]"
proof -
  from assms(1,2) obtain cfg0 where p: "registrationStage cr" "CreateTemp e = None"
    "Write e (Kubeconfig (Spec cr)) = None"
    "LoadKubeClusterConfigFromFile e (Kubeconfig (Spec cr)) = Inr cfg0"
    "Validate e (configuredFor cr cfg0) = None" "cfg = configuredFor cr cfg0"
    by (rule register_call_path)
  from assms(3) p(6) have "RegisterByVelaSecret e (configuredFor cr cfg0) = Some er" by simp
  note R = Reconcile_register_failed [OF assms(1) p(1-5) this]
  show ?thesis
    unfolding R by (simp add: failedOutcome_def failed_object Let_def)
qed

text \<open>The amended C2 at the example Progressing record and the failing Registrar.\<close>

theorem registration_failure_projects_failed_and_requeues_witness:
  "Get conflictEnv = Inr progressingRecord
   \<and> RegisterCall registeredConfig \<in> set (calls (Reconcile conflictEnv))
   \<and> RegisterByVelaSecret conflictEnv registeredConfig = Some (OtherError ''conflict'')
   \<and> result (Reconcile conflictEnv) = \<lparr>Requeue = False, RequeueAfter = 30000000000\<rparr>
   \<and> err (Reconcile conflictEnv) = None
   \<and> map_option (\<lambda>cr. (Phase (Status cr), Message (Status cr))) (object (Reconcile conflictEnv))
       = Some (''Failed'', ''Failed to register cluster: conflict'')"
proof -
  have h: "Get conflictEnv = Inr progressingRecord"
    "RegisterCall registeredConfig \<in> set (calls (Reconcile conflictEnv))"
    "RegisterByVelaSecret conflictEnv registeredConfig = Some (OtherError ''conflict'')"
    by (simp_all add: conflictEnv_def Reconcile_def reconcileWithTmpfile_def failedExit_def
        updateFailedStatus_def Let_def example_defs const_defs)
  from registration_failure_projects_failed_and_requeues [OF h] h show ?thesis
    by (simp add: Let_def Second_def)
qed

subsection \<open>C3: the reserved cluster name\<close>

text \<open>
  C3 as stated fails for a record that does not carry the finalizer yet: the example
  record named ``local'', as the user created it, gets the finalizer and a requeue; its
  phase is not set to Failed in that pass.
\<close>

theorem reserved_name_without_finalizer_counterexample:
  "resolvedClusterName localRecord = ClusterLocalName
   \<and> Get (happyEnv localRecord) = Inr localRecord
   \<and> Reconcile (happyEnv localRecord) =
       \<lparr>result = \<lparr>Requeue = True, RequeueAfter = 0\<rparr>, err = None,
        calls = [GetCall,
                 UpdateCall (localRecord\<lparr>Finalizers := [clusterRegistrationFinalizer]\<rparr>)],
        logs = [],
        object = Some (localRecord\<lparr>Finalizers := [clusterRegistrationFinalizer]\<rparr>)\<rparr>
   \<and> Phase (Status (localRecord\<lparr>Finalizers := [clusterRegistrationFinalizer]\<rparr>)) \<noteq> ''Failed''"
  by (simp add: localRecord_def Reconcile_def Let_def resolvedClusterName_def example_defs
        const_defs)

text \<open>
  C3, amended. For a record that has no deletion marker, carries the finalizer, is not at
  the Ready fixed point, and whose resolved cluster name is the reserved one, \<open>Reconcile\<close>
  sets the phase to Failed with the message ``cluster name cannot be 'local', it is
  reserved'', makes that status write and no other call after the fetch (no credential
  loading, no registration), and returns no error and no requeue.
\<close>

theorem reserved_name_rejected:
  assumes "Get e = Inr cr" and "IsZero (DeletionTimestamp cr)"
    and "ContainsFinalizer cr clusterRegistrationFinalizer"
    and "\<not> (Phase (Status cr) = ClusterRegistrationPhaseReady
            \<and> ObservedGeneration (Status cr) = Generation cr)"
    and "resolvedClusterName cr = ClusterLocalName"
  shows "let failed = cr\<lparr>Status := (Status cr)\<lparr>
             Phase := ''Failed'',
             Message := ''cluster name cannot be 'local', it is reserved'',
             ObservedGeneration := Generation cr, LastReconcileTime := Some (Clock e 0),
             Conditions := [\<lparr>cond_Type = ''Ready'', cond_Status = ''False'',
                             cond_LastTransitionTime = Clock e 1, cond_Reason = ''Unavailable'',
                             cond_Message = ''cluster name cannot be 'local', it is reserved''\<rparr>]\<rparr>\<rparr>
         in result (Reconcile e) = \<lparr>Requeue = False, RequeueAfter = 0\<rparr>
          \<and> err (Reconcile e) = None
          \<and> calls (Reconcile e) = [GetCall, StatusUpdateCall failed]
          \<and> object (Reconcile e) = Some failed"
proof -
  from assms(2-4) have "forwardPath cr" by (simp add: forwardPath_def)
  note R = Reconcile_reserved_outcome [OF assms(1) this assms(5)]
  show ?thesis
    unfolding R by (simp add: failedOutcome_def failed_object Let_def Result_empty_def)
qed

text \<open>The amended C3 at the example record named ``local'', once it carries the finalizer.\<close>

theorem reserved_name_rejected_witness:
  "Get (happyEnv (localRecord\<lparr>Finalizers := [clusterRegistrationFinalizer]\<rparr>))
     = Inr (localRecord\<lparr>Finalizers := [clusterRegistrationFinalizer]\<rparr>)
   \<and> IsZero (DeletionTimestamp (localRecord\<lparr>Finalizers := [clusterRegistrationFinalizer]\<rparr>))
   \<and> ContainsFinalizer (localRecord\<lparr>Finalizers := [clusterRegistrationFinalizer]\<rparr>)
        clusterRegistrationFinalizer
   \<and> Phase (Status (localRecord\<lparr>Finalizers := [clusterRegistrationFinalizer]\<rparr>))
        \<noteq> ClusterRegistrationPhaseReady
   \<and> resolvedClusterName (localRecord\<lparr>Finalizers := [clusterRegistrationFinalizer]\<rparr>)
        = ClusterLocalName
   \<and> result (Reconcile (happyEnv (localRecord\<lparr>Finalizers := [clusterRegistrationFinalizer]\<rparr>)))
        = \<lparr>Requeue = False, RequeueAfter = 0\<rparr>
   \<and> err (Reconcile (happyEnv (localRecord\<lparr>Finalizers := [clusterRegistrationFinalizer]\<rparr>)))
        = None
   \<and> map_option (\<lambda>cr. (Phase (Status cr), Message (Status cr)))
        (object (Reconcile (happyEnv (localRecord\<lparr>Finalizers := [clusterRegistrationFinalizer]\<rparr>))))
        = Some (''Failed'', ''cluster name cannot be 'local', it is reserved'')
   \<and> length (calls (Reconcile (happyEnv (localRecord\<lparr>Finalizers := [clusterRegistrationFinalizer]\<rparr>))))
        = 2"
proof -
  let ?cr = "localRecord\<lparr>Finalizers := [clusterRegistrationFinalizer]\<rparr>"
  have h: "Get (happyEnv ?cr) = Inr ?cr" "IsZero (DeletionTimestamp ?cr)"
    "ContainsFinalizer ?cr clusterRegistrationFinalizer"
    "\<not> (Phase (Status ?cr) = ClusterRegistrationPhaseReady
            \<and> ObservedGeneration (Status ?cr) = Generation ?cr)"
    "resolvedClusterName ?cr = ClusterLocalName"
    by (simp_all add: localRecord_def resolvedClusterName_def example_defs const_defs)
  have p: "Phase (Status ?cr) \<noteq> ClusterRegistrationPhaseReady"
    by (simp add: localRecord_def example_defs const_defs)
  from reserved_name_rejected [OF h] h(1,2,3,5) p show ?thesis
    by (simp add: Let_def)
qed

subsection \<open>C4: the deletion path\<close>

text \<open>
  C4. For a record with a deletion marker: without the finalizer, \<open>Reconcile\<close> makes no
  call after the fetch and returns success. With the finalizer, the Detacher is called
  with the resolved cluster name; an error that is not ``not found'' is returned to the
  dispatcher, with no write at all and the object as fetched; when the Detacher succeeds
  or answers ``not found'', the record without the finalizer is written with \<^verbatim>\<open>r.Update\<close>,
  the answer of that write is what the pass returns, and an accepted write removes the
  record from the store when that finalizer was its last one, and otherwise leaves the
  stored record without it.
\<close>

theorem deletion_path:
  assumes "Get e = Inr cr" and "\<not> IsZero (DeletionTimestamp cr)"
  shows "(\<not> ContainsFinalizer cr clusterRegistrationFinalizer \<longrightarrow>
            Reconcile e =
              \<lparr>result = \<lparr>Requeue = False, RequeueAfter = 0\<rparr>, err = None, calls = [GetCall],
               logs = [], object = Some cr\<rparr>)
       \<and> (ContainsFinalizer cr clusterRegistrationFinalizer \<longrightarrow>
            take 2 (calls (Reconcile e)) = [GetCall, DetachCall (resolvedClusterName cr)]
          \<and> (\<forall>er. DetachCluster e (resolvedClusterName cr) = Some er \<and> \<not> IsNotFound er \<longrightarrow>
                Reconcile e =
                  \<lparr>result = \<lparr>Requeue = False, RequeueAfter = 0\<rparr>, err = Some er,
                   calls = [GetCall, DetachCall (resolvedClusterName cr)],
                   logs = [(er, ''Failed to detach cluster'')], object = Some cr\<rparr>)
          \<and> (DetachCluster e (resolvedClusterName cr) = None
              \<or> (\<exists>er. DetachCluster e (resolvedClusterName cr) = Some er \<and> IsNotFound er) \<longrightarrow>
                (let removed = cr\<lparr>Finalizers :=
                       filter (\<lambda>f. f \<noteq> clusterRegistrationFinalizer) (Finalizers cr)\<rparr>
                 in calls (Reconcile e) =
                      [GetCall, DetachCall (resolvedClusterName cr), UpdateCall removed]
                  \<and> \<not> ContainsFinalizer removed clusterRegistrationFinalizer
                  \<and> result (Reconcile e) = \<lparr>Requeue = False, RequeueAfter = 0\<rparr>
                  \<and> err (Reconcile e) = Update e removed
                  \<and> (Update e removed = None \<longrightarrow>
                        pass e (Some cr) = (if Finalizers removed = [] then None else Some removed)))))"
proof (intro conjI impI allI)
  assume "\<not> ContainsFinalizer cr clusterRegistrationFinalizer"
  from Reconcile_deleted_absent [OF assms this]
  show "Reconcile e =
              \<lparr>result = \<lparr>Requeue = False, RequeueAfter = 0\<rparr>, err = None, calls = [GetCall],
               logs = [], object = Some cr\<rparr>"
    by (simp add: Result_empty_def)
next
  assume c: "ContainsFinalizer cr clusterRegistrationFinalizer"
  show "take 2 (calls (Reconcile e)) = [GetCall, DetachCall (resolvedClusterName cr)]"
  proof (cases "\<exists>er. DetachCluster e (resolvedClusterName cr) = Some er \<and> \<not> IsNotFound er")
    case True
    then obtain er where "DetachCluster e (resolvedClusterName cr) = Some er" "\<not> IsNotFound er"
      by blast
    from Reconcile_detach_failed [OF assms c this] show ?thesis by simp
  next
    case False
    then have "DetachCluster e (resolvedClusterName cr) = None
         \<or> (\<exists>er. DetachCluster e (resolvedClusterName cr) = Some er \<and> IsNotFound er)"
      by (cases "DetachCluster e (resolvedClusterName cr)") auto
    from Reconcile_detached [OF assms c this] show ?thesis by simp
  qed
next
  fix er
  assume c: "ContainsFinalizer cr clusterRegistrationFinalizer"
    and d: "DetachCluster e (resolvedClusterName cr) = Some er \<and> \<not> IsNotFound er"
  from d have d1: "DetachCluster e (resolvedClusterName cr) = Some er" and d2: "\<not> IsNotFound er"
    by simp_all
  from Reconcile_detach_failed [OF assms c d1 d2]
  show "Reconcile e =
                  \<lparr>result = \<lparr>Requeue = False, RequeueAfter = 0\<rparr>, err = Some er,
                   calls = [GetCall, DetachCall (resolvedClusterName cr)],
                   logs = [(er, ''Failed to detach cluster'')], object = Some cr\<rparr>"
    by (simp add: Result_empty_def)
next
  assume c: "ContainsFinalizer cr clusterRegistrationFinalizer"
    and d: "DetachCluster e (resolvedClusterName cr) = None
              \<or> (\<exists>er. DetachCluster e (resolvedClusterName cr) = Some er \<and> IsNotFound er)"
  note R = Reconcile_detached [OF assms c d]
  have g: "e\<lparr>Get := fetch (Some cr)\<rparr> = e"
    using assms(1) by (simp add: fetch_def)
  show "let removed = cr\<lparr>Finalizers :=
                       filter (\<lambda>f. f \<noteq> clusterRegistrationFinalizer) (Finalizers cr)\<rparr>
                 in calls (Reconcile e) =
                      [GetCall, DetachCall (resolvedClusterName cr), UpdateCall removed]
                  \<and> \<not> ContainsFinalizer removed clusterRegistrationFinalizer
                  \<and> result (Reconcile e) = \<lparr>Requeue = False, RequeueAfter = 0\<rparr>
                  \<and> err (Reconcile e) = Update e removed
                  \<and> (Update e removed = None \<longrightarrow>
                        pass e (Some cr) = (if Finalizers removed = [] then None else Some removed))"
    using assms(2) unfolding pass_def g R
    by (simp add: Let_def RemoveFinalizer_def ContainsFinalizer_def Result_empty_def persist_def)
qed

text \<open>
  C4 at four deliveries of a deleted record: the Detacher answers ``not found'' and the
  record leaves the store; the same for a record that another controller's finalizer
  still holds, which stays stored with that finalizer alone; the Detacher times out; and
  the record never had the finalizer.
\<close>

theorem deletion_path_witness:
  "\<not> IsZero (DeletionTimestamp deletingRecord)
   \<and> ContainsFinalizer deletingRecord clusterRegistrationFinalizer
   \<and> resolvedClusterName deletingRecord = ''prod-west''
   \<and> calls (Reconcile (detachEnv (Some (NotFoundError ''gone'')) deletingRecord)) =
        [GetCall, DetachCall ''prod-west'', UpdateCall (deletingRecord\<lparr>Finalizers := []\<rparr>)]
   \<and> err (Reconcile (detachEnv (Some (NotFoundError ''gone'')) deletingRecord)) = None
   \<and> pass (detachEnv (Some (NotFoundError ''gone'')) deletingRecord) (Some deletingRecord)
        = None
   \<and> pass (detachEnv (Some (NotFoundError ''gone''))
              (deletingRecord\<lparr>Finalizers := [''other.io/hold'', clusterRegistrationFinalizer]\<rparr>))
        (Some (deletingRecord\<lparr>Finalizers := [''other.io/hold'', clusterRegistrationFinalizer]\<rparr>))
        = Some (deletingRecord\<lparr>Finalizers := [''other.io/hold'']\<rparr>)
   \<and> Reconcile (detachEnv (Some (OtherError ''timeout'')) deletingRecord) =
        \<lparr>result = \<lparr>Requeue = False, RequeueAfter = 0\<rparr>, err = Some (OtherError ''timeout''),
         calls = [GetCall, DetachCall ''prod-west''],
         logs = [(OtherError ''timeout'', ''Failed to detach cluster'')],
         object = Some deletingRecord\<rparr>
   \<and> \<not> ContainsFinalizer (newRecord\<lparr>DeletionTimestamp := Some 2000\<rparr>)
         clusterRegistrationFinalizer
   \<and> Reconcile (happyEnv (newRecord\<lparr>DeletionTimestamp := Some 2000\<rparr>)) =
        \<lparr>result = \<lparr>Requeue = False, RequeueAfter = 0\<rparr>, err = None, calls = [GetCall],
         logs = [], object = Some (newRecord\<lparr>DeletionTimestamp := Some 2000\<rparr>)\<rparr>"
proof -
  let ?held = "deletingRecord\<lparr>Finalizers := [''other.io/hold'', clusterRegistrationFinalizer]\<rparr>"
  let ?gone = "detachEnv (Some (NotFoundError ''gone'')) deletingRecord"
  let ?gone' = "detachEnv (Some (NotFoundError ''gone'')) ?held"
  let ?timeout = "detachEnv (Some (OtherError ''timeout'')) deletingRecord"
  let ?bare = "newRecord\<lparr>DeletionTimestamp := Some 2000\<rparr>"
  have g: "Get ?gone = Inr deletingRecord" "Get ?timeout = Inr deletingRecord"
    "Get (happyEnv ?bare) = Inr ?bare" "Get ?gone' = Inr ?held"
    by (simp_all add: detachEnv_def happyEnv_def)
  have d: "\<not> IsZero (DeletionTimestamp deletingRecord)" "\<not> IsZero (DeletionTimestamp ?bare)"
    "\<not> IsZero (DeletionTimestamp ?held)"
    by (simp_all add: deletingRecord_def example_defs const_defs)
  have c: "ContainsFinalizer deletingRecord clusterRegistrationFinalizer"
    "\<not> ContainsFinalizer ?bare clusterRegistrationFinalizer"
    "ContainsFinalizer ?held clusterRegistrationFinalizer"
    by (simp_all add: deletingRecord_def example_defs const_defs)
  have n: "resolvedClusterName deletingRecord = ''prod-west''"
    "resolvedClusterName ?held = ''prod-west''"
    by (simp_all add: resolvedClusterName_def deletingRecord_def example_defs)
  have a: "DetachCluster ?gone ''prod-west'' = Some (NotFoundError ''gone'')"
    "DetachCluster ?gone' ''prod-west'' = Some (NotFoundError ''gone'')"
    "DetachCluster ?timeout ''prod-west'' = Some (OtherError ''timeout'')"
    "Update ?gone (deletingRecord\<lparr>Finalizers := []\<rparr>) = None"
    "Update ?gone' (deletingRecord\<lparr>Finalizers := [''other.io/hold'']\<rparr>) = None"
    by (simp_all add: detachEnv_def happyEnv_def)
  have f: "filter (\<lambda>f. f \<noteq> clusterRegistrationFinalizer) (Finalizers deletingRecord) = []"
    "filter (\<lambda>f. f \<noteq> clusterRegistrationFinalizer) (Finalizers ?held) = [''other.io/hold'']"
    by (simp_all add: deletingRecord_def example_defs clusterRegistrationFinalizer_def)
  from deletion_path [OF g(1) d(1)] deletion_path [OF g(2) d(1)] deletion_path [OF g(3) d(2)]
       deletion_path [OF g(4) d(3)] d(1) c n a f
  show ?thesis
    by (simp add: Let_def)
qed

subsection \<open>C5: the success projection\<close>

text \<open>
  C5. When the Registrar call of a pass succeeds, the one status write of the pass
  carries phase Ready, a cluster info whose endpoint is the server of the loaded
  configuration and whose credential type is ``ServiceAccountToken'' exactly when the
  loaded configuration has a non-empty token or an exec provider (``X509Certificate''
  otherwise), the observed generation set to the generation, the reconcile time, and a
  condition list replaced by the single Available condition; the pass returns what that
  write answers.
\<close>

theorem registration_success_projects_ready:
  assumes "Get e = Inr cr" and "RegisterCall cfg \<in> set (calls (Reconcile e))"
    and "RegisterByVelaSecret e cfg = None"
    and "LoadKubeClusterConfigFromFile e (Kubeconfig (Spec cr)) = Inr loaded"
  shows "let ready = cr\<lparr>Status :=
             \<lparr>Phase = ''Ready'',
              Conditions = [\<lparr>cond_Type = ''Ready'', cond_Status = ''True'',
                             cond_LastTransitionTime = Clock e 1, cond_Reason = ''Available'',
                             cond_Message = ''Cluster successfully registered and ready''\<rparr>],
              ClusterInfo = Some
                \<lparr>Endpoint = Server (cfg_Cluster loaded),
                 CredentialType =
                   (if Token (cfg_AuthInfo loaded) \<noteq> '''' \<or> Exec (cfg_AuthInfo loaded) \<noteq> None
                    then ''ServiceAccountToken'' else ''X509Certificate''),
                 Version = ''''\<rparr>,
              Message = ''Cluster successfully registered'',
              ObservedGeneration = Generation cr,
              LastReconcileTime = Some (Clock e 0)\<rparr>\<rparr>
         in statusWrites (calls (Reconcile e)) = [ready]
          \<and> object (Reconcile e) = Some ready
          \<and> result (Reconcile e) = \<lparr>Requeue = False, RequeueAfter = 0\<rparr>
          \<and> err (Reconcile e) = StatusUpdate e ready"
proof -
  from assms(1,2) obtain cfg0 where p: "registrationStage cr" "CreateTemp e = None"
    "Write e (Kubeconfig (Spec cr)) = None"
    "LoadKubeClusterConfigFromFile e (Kubeconfig (Spec cr)) = Inr cfg0"
    "Validate e (configuredFor cr cfg0) = None" "cfg = configuredFor cr cfg0"
    by (rule register_call_path)
  from p(4) assms(4) have l: "cfg0 = loaded" by simp
  from assms(3) p(6) have "RegisterByVelaSecret e (configuredFor cr cfg0) = None" by simp
  note R = Reconcile_registered [OF assms(1) p(1-5) this]
  show ?thesis
    unfolding R l
    by (simp add: readyProjection_def inferredCredentialType_def Let_def Result_empty_def)
qed

text \<open>C5 at the example Progressing record, with collaborators that all succeed.\<close>

theorem registration_success_projects_ready_witness:
  "Get (happyEnv progressingRecord) = Inr progressingRecord
   \<and> RegisterCall registeredConfig \<in> set (calls (Reconcile (happyEnv progressingRecord)))
   \<and> RegisterByVelaSecret (happyEnv progressingRecord) registeredConfig = None
   \<and> LoadKubeClusterConfigFromFile (happyEnv progressingRecord)
        (Kubeconfig (Spec progressingRecord)) = Inr exampleConfig
   \<and> object (Reconcile (happyEnv progressingRecord)) =
        Some (readyRecord\<lparr>Status := (Status readyRecord)\<lparr>
          Conditions := [\<lparr>cond_Type = ''Ready'', cond_Status = ''True'',
                          cond_LastTransitionTime = 1001, cond_Reason = ''Available'',
                          cond_Message = ''Cluster successfully registered and ready''\<rparr>],
          LastReconcileTime := Some 1000\<rparr>\<rparr>)
   \<and> err (Reconcile (happyEnv progressingRecord)) = None"
proof -
  have h: "Get (happyEnv progressingRecord) = Inr progressingRecord"
    "RegisterCall registeredConfig \<in> set (calls (Reconcile (happyEnv progressingRecord)))"
    "RegisterByVelaSecret (happyEnv progressingRecord) registeredConfig = None"
    "LoadKubeClusterConfigFromFile (happyEnv progressingRecord)
        (Kubeconfig (Spec progressingRecord)) = Inr exampleConfig"
    by (simp_all add: Reconcile_def reconcileWithTmpfile_def Let_def example_defs const_defs)
  from registration_success_projects_ready [OF h] h show ?thesis
    by (simp add: Let_def example_defs)
qed

subsection \<open>C6: the condition list\<close>

text \<open>
  C6. A status write of a pass is of one of three kinds: the phase announcement, which
  leaves the condition list as it was; the success projection, which replaces the list
  with the one Available condition; the failure projection, which replaces it with the
  one Unavailable condition carrying the status message. So after any sequence of passes,
  whatever the collaborators answer, a record with no deletion marker is still stored,
  and the condition list of the stored record is the list the sequence started from or
  has exactly one element: it never grows, and a record created with no condition never
  has more than one. The same bound holds for a record with a deletion marker as long as
  it is stored.
\<close>

theorem conditions_replaced_never_appended:
  "(Get e = Inr cr \<and> StatusUpdateCall w \<in> set (calls (Reconcile e)) \<longrightarrow>
      (Phase (Status w) = ''Progressing'' \<and> Conditions (Status w) = Conditions (Status cr))
    \<or> (Phase (Status w) = ''Ready''
        \<and> Conditions (Status w) =
            [\<lparr>cond_Type = ''Ready'', cond_Status = ''True'',
              cond_LastTransitionTime = Clock e 1, cond_Reason = ''Available'',
              cond_Message = ''Cluster successfully registered and ready''\<rparr>])
    \<or> (Phase (Status w) = ''Failed''
        \<and> Conditions (Status w) =
            [\<lparr>cond_Type = ''Ready'', cond_Status = ''False'',
              cond_LastTransitionTime = Clock e 1, cond_Reason = ''Unavailable'',
              cond_Message = Message (Status w)\<rparr>]))
   \<and> (IsZero (DeletionTimestamp cr) \<longrightarrow>
        (\<exists>cr'. run es (Some cr) = Some cr'
          \<and> (Conditions (Status cr') = Conditions (Status cr)
             \<or> length (Conditions (Status cr')) = 1)))
   \<and> (\<forall>cr'. run es (Some cr) = Some cr' \<longrightarrow>
          Conditions (Status cr') = Conditions (Status cr)
        \<or> length (Conditions (Status cr')) = 1)"
proof (intro conjI)
  show "Get e = Inr cr \<and> StatusUpdateCall w \<in> set (calls (Reconcile e)) \<longrightarrow>
      (Phase (Status w) = ''Progressing'' \<and> Conditions (Status w) = Conditions (Status cr))
    \<or> (Phase (Status w) = ''Ready''
        \<and> Conditions (Status w) =
            [\<lparr>cond_Type = ''Ready'', cond_Status = ''True'',
              cond_LastTransitionTime = Clock e 1, cond_Reason = ''Available'',
              cond_Message = ''Cluster successfully registered and ready''\<rparr>])
    \<or> (Phase (Status w) = ''Failed''
        \<and> Conditions (Status w) =
            [\<lparr>cond_Type = ''Ready'', cond_Status = ''False'',
              cond_LastTransitionTime = Clock e 1, cond_Reason = ''Unavailable'',
              cond_Message = Message (Status w)\<rparr>])"
  proof (rule impI)
    assume a: "Get e = Inr cr \<and> StatusUpdateCall w \<in> set (calls (Reconcile e))"
    then have g: "Get e = Inr cr" and w: "StatusUpdateCall w \<in> set (calls (Reconcile e))"
      by simp_all
    from status_write_cases [OF g w]
    have "w = announced cr \<or> (\<exists>cfg0. w = readyProjection e cr cfg0)
          \<or> (\<exists>m. w = fst (updateFailedStatus e cr m))"
      by blast
    then show "(Phase (Status w) = ''Progressing''
          \<and> Conditions (Status w) = Conditions (Status cr))
      \<or> (Phase (Status w) = ''Ready''
          \<and> Conditions (Status w) =
              [\<lparr>cond_Type = ''Ready'', cond_Status = ''True'',
                cond_LastTransitionTime = Clock e 1, cond_Reason = ''Available'',
                cond_Message = ''Cluster successfully registered and ready''\<rparr>])
      \<or> (Phase (Status w) = ''Failed''
          \<and> Conditions (Status w) =
              [\<lparr>cond_Type = ''Ready'', cond_Status = ''False'',
                cond_LastTransitionTime = Clock e 1, cond_Reason = ''Unavailable'',
                cond_Message = Message (Status w)\<rparr>])"
      by (auto simp: announced_def readyProjection_def failed_object)
  qed
next
  show "IsZero (DeletionTimestamp cr) \<longrightarrow>
        (\<exists>cr'. run es (Some cr) = Some cr'
          \<and> (Conditions (Status cr') = Conditions (Status cr)
             \<or> length (Conditions (Status cr')) = 1))"
  proof (rule impI)
    assume "IsZero (DeletionTimestamp cr)"
    from run_unmarked [OF this] obtain cr' where r: "run es (Some cr) = Some cr'" by blast
    from run_conditions [OF r] r
    show "\<exists>cr'. run es (Some cr) = Some cr'
          \<and> (Conditions (Status cr') = Conditions (Status cr)
             \<or> length (Conditions (Status cr')) = 1)"
      by blast
  qed
next
  show "\<forall>cr'. run es (Some cr) = Some cr' \<longrightarrow>
          Conditions (Status cr') = Conditions (Status cr)
        \<or> length (Conditions (Status cr')) = 1"
    using run_conditions by blast
qed

text \<open>
  C6 at the failing Registrar, and along a run of five passes from the example
  Progressing record (a load failure, an announcement, a registration failure, an
  announcement, a success): the record ends Ready with exactly one condition.
\<close>

theorem conditions_replaced_never_appended_witness:
  "Get conflictEnv = Inr progressingRecord
   \<and> StatusUpdateCall
        (failedRecord\<lparr>Status := (Status failedRecord)\<lparr>
             Conditions := [\<lparr>cond_Type = ''Ready'', cond_Status = ''False'',
                          cond_LastTransitionTime = 1001, cond_Reason = ''Unavailable'',
                          cond_Message = ''Failed to register cluster: conflict''\<rparr>],
             LastReconcileTime := Some 1000\<rparr>\<rparr>)
        \<in> set (calls (Reconcile conflictEnv))
   \<and> IsZero (DeletionTimestamp progressingRecord)
   \<and> Conditions (Status progressingRecord) = []
   \<and> map_option (\<lambda>cr. (Phase (Status cr), length (Conditions (Status cr))))
        (run flakyRun (Some progressingRecord)) = Some (''Ready'', 1)"
proof -
  let ?w = "failedRecord\<lparr>Status := (Status failedRecord)\<lparr>
             Conditions := [\<lparr>cond_Type = ''Ready'', cond_Status = ''False'',
                          cond_LastTransitionTime = 1001, cond_Reason = ''Unavailable'',
                          cond_Message = ''Failed to register cluster: conflict''\<rparr>],
             LastReconcileTime := Some 1000\<rparr>\<rparr>"
  have h: "Get conflictEnv = Inr progressingRecord"
    "StatusUpdateCall ?w \<in> set (calls (Reconcile conflictEnv))"
    "IsZero (DeletionTimestamp progressingRecord)"
    "Conditions (Status progressingRecord) = []"
    by (simp_all add: conflictEnv_def eval_defs example_defs const_defs)
  have r: "map_option (\<lambda>cr. (Phase (Status cr), length (Conditions (Status cr))))
        (run flakyRun (Some progressingRecord)) = Some (''Ready'', 1)"
    by (simp add: flakyRun_def eval_defs example_defs const_defs)
  from conditions_replaced_never_appended [of conflictEnv progressingRecord ?w flakyRun] h r
  show ?thesis by simp
qed

subsection \<open>C7: the failure projection helper\<close>

text \<open>
  C7. \<^verbatim>\<open>updateFailedStatus\<close> sets the phase to Failed, the status message to the message it
  is given, the condition list to the one Unavailable condition with that message, the
  observed generation to the generation and the reconcile time to the clock, and makes one
  status write with that object; when the write fails it only logs, and the object and
  the write are the same whatever the write answers. A pass that makes a status write
  with phase Failed returns no error, and the same result, calls and object whatever that
  write answers.
\<close>

theorem failure_projection_helper:
  "(let failed = cr\<lparr>Status := (Status cr)\<lparr>
           Phase := ''Failed'', Message := message,
           ObservedGeneration := Generation cr, LastReconcileTime := Some (Clock e 0),
           Conditions := [\<lparr>cond_Type = ''Ready'', cond_Status = ''False'',
                           cond_LastTransitionTime = Clock e 1, cond_Reason = ''Unavailable'',
                           cond_Message = message\<rparr>]\<rparr>\<rparr>
    in updateFailedStatus e cr message =
         (failed, [StatusUpdateCall failed],
          (case StatusUpdate e failed of
             Some er \<Rightarrow> [(er, ''Failed to update failed status'')] | None \<Rightarrow> []))
       \<and> fst (updateFailedStatus (e\<lparr>StatusUpdate := answer\<rparr>) cr message) = failed
       \<and> fst (snd (updateFailedStatus (e\<lparr>StatusUpdate := answer\<rparr>) cr message))
            = [StatusUpdateCall failed])
   \<and> (Get e = Inr cr \<and> StatusUpdateCall w \<in> set (calls (Reconcile e))
        \<and> Phase (Status w) = ''Failed'' \<longrightarrow>
          err (Reconcile (e\<lparr>StatusUpdate := answer\<rparr>)) = None
        \<and> result (Reconcile (e\<lparr>StatusUpdate := answer\<rparr>)) = result (Reconcile e)
        \<and> calls (Reconcile (e\<lparr>StatusUpdate := answer\<rparr>)) = calls (Reconcile e)
        \<and> object (Reconcile (e\<lparr>StatusUpdate := answer\<rparr>)) = Some w)"
proof (rule conjI)
  show "let failed = cr\<lparr>Status := (Status cr)\<lparr>
           Phase := ''Failed'', Message := message,
           ObservedGeneration := Generation cr, LastReconcileTime := Some (Clock e 0),
           Conditions := [\<lparr>cond_Type = ''Ready'', cond_Status = ''False'',
                           cond_LastTransitionTime = Clock e 1, cond_Reason = ''Unavailable'',
                           cond_Message = message\<rparr>]\<rparr>\<rparr>
    in updateFailedStatus e cr message =
         (failed, [StatusUpdateCall failed],
          (case StatusUpdate e failed of
             Some er \<Rightarrow> [(er, ''Failed to update failed status'')] | None \<Rightarrow> []))
       \<and> fst (updateFailedStatus (e\<lparr>StatusUpdate := answer\<rparr>) cr message) = failed
       \<and> fst (snd (updateFailedStatus (e\<lparr>StatusUpdate := answer\<rparr>) cr message))
            = [StatusUpdateCall failed]"
    by (simp add: updateFailedStatus_def Let_def Unavailable_def ClusterRegistrationPhaseFailed_def)
next
  show "Get e = Inr cr \<and> StatusUpdateCall w \<in> set (calls (Reconcile e))
        \<and> Phase (Status w) = ''Failed'' \<longrightarrow>
          err (Reconcile (e\<lparr>StatusUpdate := answer\<rparr>)) = None
        \<and> result (Reconcile (e\<lparr>StatusUpdate := answer\<rparr>)) = result (Reconcile e)
        \<and> calls (Reconcile (e\<lparr>StatusUpdate := answer\<rparr>)) = calls (Reconcile e)
        \<and> object (Reconcile (e\<lparr>StatusUpdate := answer\<rparr>)) = Some w"
  proof (rule impI)
  assume a: "Get e = Inr cr \<and> StatusUpdateCall w \<in> set (calls (Reconcile e))
        \<and> Phase (Status w) = ''Failed''"
  then have g: "Get e = Inr cr" and w: "StatusUpdateCall w \<in> set (calls (Reconcile e))"
    and f: "Phase (Status w) = ''Failed''" by simp_all
  from f have "w \<noteq> announced cr" "\<And>cfg0. w \<noteq> readyProjection e cr cfg0"
    by (auto simp: announced_def readyProjection_def)
  with status_write_cases [OF g w]
  have o: "object (Reconcile e) = Some w"
    and all: "\<forall>answer. err (Reconcile (e\<lparr>StatusUpdate := answer\<rparr>)) = None
                      \<and> result (Reconcile (e\<lparr>StatusUpdate := answer\<rparr>)) = result (Reconcile e)
                      \<and> calls (Reconcile (e\<lparr>StatusUpdate := answer\<rparr>)) = calls (Reconcile e)
                      \<and> object (Reconcile (e\<lparr>StatusUpdate := answer\<rparr>)) = object (Reconcile e)"
    by blast+
  from all o show "err (Reconcile (e\<lparr>StatusUpdate := answer\<rparr>)) = None
        \<and> result (Reconcile (e\<lparr>StatusUpdate := answer\<rparr>)) = result (Reconcile e)
        \<and> calls (Reconcile (e\<lparr>StatusUpdate := answer\<rparr>)) = calls (Reconcile e)
        \<and> object (Reconcile (e\<lparr>StatusUpdate := answer\<rparr>)) = Some w"
    by simp
  qed
qed

text \<open>
  C7 at the example Progressing record with a configuration that does not parse: the
  status write is rejected, and the pass returns as when it is accepted.
\<close>

theorem failure_projection_helper_witness:
  "Get (badYamlEnv progressingRecord) = Inr progressingRecord
   \<and> StatusUpdateCall badYamlFailed \<in> set (calls (Reconcile (badYamlEnv progressingRecord)))
   \<and> Phase (Status badYamlFailed) = ''Failed''
   \<and> fst (updateFailedStatus
            ((badYamlEnv progressingRecord)
               \<lparr>StatusUpdate := (\<lambda>_. Some (OtherError ''status conflict''))\<rparr>)
            progressingRecord ''Failed to load kubeconfig: bad yaml'') = badYamlFailed
   \<and> err (Reconcile ((badYamlEnv progressingRecord)
              \<lparr>StatusUpdate := (\<lambda>_. Some (OtherError ''status conflict''))\<rparr>)) = None
   \<and> result (Reconcile ((badYamlEnv progressingRecord)
              \<lparr>StatusUpdate := (\<lambda>_. Some (OtherError ''status conflict''))\<rparr>))
        = result (Reconcile (badYamlEnv progressingRecord))
   \<and> object (Reconcile ((badYamlEnv progressingRecord)
              \<lparr>StatusUpdate := (\<lambda>_. Some (OtherError ''status conflict''))\<rparr>))
        = Some badYamlFailed"
proof -
  have h: "Get (badYamlEnv progressingRecord) = Inr progressingRecord"
    "StatusUpdateCall badYamlFailed \<in> set (calls (Reconcile (badYamlEnv progressingRecord)))"
    "Phase (Status badYamlFailed) = ''Failed''"
    by (simp_all add: badYamlEnv_def badYamlFailed_def eval_defs example_defs const_defs)
  have w: "progressingRecord\<lparr>Status := (Status progressingRecord)\<lparr>
           Phase := ''Failed'', Message := ''Failed to load kubeconfig: bad yaml'',
           ObservedGeneration := Generation progressingRecord,
           LastReconcileTime := Some (Clock (badYamlEnv progressingRecord) 0),
           Conditions := [\<lparr>cond_Type = ''Ready'', cond_Status = ''False'',
                           cond_LastTransitionTime = Clock (badYamlEnv progressingRecord) 1,
                           cond_Reason = ''Unavailable'',
                           cond_Message = ''Failed to load kubeconfig: bad yaml''\<rparr>]\<rparr>\<rparr>
        = badYamlFailed"
    by (simp add: badYamlEnv_def badYamlFailed_def example_defs const_defs)
  from failure_projection_helper [where e = "badYamlEnv progressingRecord"
         and cr = progressingRecord and w = badYamlFailed
         and message = "''Failed to load kubeconfig: bad yaml''"
         and answer = "\<lambda>_. Some (OtherError ''status conflict'')"] h
  show ?thesis unfolding Let_def w by simp
qed

subsection \<open>C8: the finalizer comes first\<close>

text \<open>
  C8. For a record with no deletion marker and without the finalizer, \<open>Reconcile\<close> appends
  the finalizer and writes the record with \<^verbatim>\<open>r.Update\<close>, and makes no other call after the
  fetch; it returns what the write answers, and when the write is accepted the result
  asks for a requeue and the stored record carries the finalizer. And after any sequence
  of passes from any stored record, a pass calls the Registrar only if the stored record
  it is handed carries the finalizer (and no deletion marker).
\<close>

theorem finalizer_installed_before_registration:
  "(Get e = Inr cr \<and> IsZero (DeletionTimestamp cr)
      \<and> \<not> ContainsFinalizer cr clusterRegistrationFinalizer \<longrightarrow>
        (let guarded = cr\<lparr>Finalizers := Finalizers cr @ [clusterRegistrationFinalizer]\<rparr>
         in calls (Reconcile e) = [GetCall, UpdateCall guarded]
          \<and> ContainsFinalizer guarded clusterRegistrationFinalizer
          \<and> object (Reconcile e) = Some guarded
          \<and> err (Reconcile e) = Update e guarded
          \<and> (Update e guarded = None \<longrightarrow>
                result (Reconcile e) = \<lparr>Requeue = True, RequeueAfter = 0\<rparr>
              \<and> pass e (Some cr) = Some guarded)))
   \<and> (RegisterCall cfg \<in> set (calls (Reconcile (e'\<lparr>Get := fetch (run es s)\<rparr>))) \<longrightarrow>
        (\<exists>stored. run es s = Some stored \<and> IsZero (DeletionTimestamp stored)
           \<and> ContainsFinalizer stored clusterRegistrationFinalizer))"
proof (rule conjI)
  show "Get e = Inr cr \<and> IsZero (DeletionTimestamp cr)
      \<and> \<not> ContainsFinalizer cr clusterRegistrationFinalizer \<longrightarrow>
        (let guarded = cr\<lparr>Finalizers := Finalizers cr @ [clusterRegistrationFinalizer]\<rparr>
         in calls (Reconcile e) = [GetCall, UpdateCall guarded]
          \<and> ContainsFinalizer guarded clusterRegistrationFinalizer
          \<and> object (Reconcile e) = Some guarded
          \<and> err (Reconcile e) = Update e guarded
          \<and> (Update e guarded = None \<longrightarrow>
                result (Reconcile e) = \<lparr>Requeue = True, RequeueAfter = 0\<rparr>
              \<and> pass e (Some cr) = Some guarded))"
  proof (rule impI)
    assume a: "Get e = Inr cr \<and> IsZero (DeletionTimestamp cr)
      \<and> \<not> ContainsFinalizer cr clusterRegistrationFinalizer"
    then have g: "Get e = Inr cr" and z: "IsZero (DeletionTimestamp cr)"
      and c: "\<not> ContainsFinalizer cr clusterRegistrationFinalizer" by simp_all
    note R = Reconcile_install [OF g z c]
    have f: "e\<lparr>Get := fetch (Some cr)\<rparr> = e"
      using g by (simp add: fetch_def)
    from c have add: "AddFinalizer cr clusterRegistrationFinalizer
        = cr\<lparr>Finalizers := Finalizers cr @ [clusterRegistrationFinalizer]\<rparr>"
      by (simp add: AddFinalizer_def ContainsFinalizer_def)
    show "let guarded = cr\<lparr>Finalizers := Finalizers cr @ [clusterRegistrationFinalizer]\<rparr>
         in calls (Reconcile e) = [GetCall, UpdateCall guarded]
          \<and> ContainsFinalizer guarded clusterRegistrationFinalizer
          \<and> object (Reconcile e) = Some guarded
          \<and> err (Reconcile e) = Update e guarded
          \<and> (Update e guarded = None \<longrightarrow>
                result (Reconcile e) = \<lparr>Requeue = True, RequeueAfter = 0\<rparr>
              \<and> pass e (Some cr) = Some guarded)"
      using z unfolding pass_def f R add
      by (simp add: Let_def ContainsFinalizer_def persist_def)
  qed
next
  show "RegisterCall cfg \<in> set (calls (Reconcile (e'\<lparr>Get := fetch (run es s)\<rparr>))) \<longrightarrow>
        (\<exists>stored. run es s = Some stored \<and> IsZero (DeletionTimestamp stored)
           \<and> ContainsFinalizer stored clusterRegistrationFinalizer)"
    by (rule impI) (rule register_needs_finalizer)
qed

text \<open>
  C8 at the example record as created: the first pass installs the finalizer, the second
  announces, and the third, handed the stored record with the finalizer, registers.
\<close>

theorem finalizer_installed_before_registration_witness:
  "Get (happyEnv newRecord) = Inr newRecord \<and> IsZero (DeletionTimestamp newRecord)
   \<and> \<not> ContainsFinalizer newRecord clusterRegistrationFinalizer
   \<and> Update (happyEnv newRecord) guardedRecord = None
   \<and> calls (Reconcile (happyEnv newRecord)) = [GetCall, UpdateCall guardedRecord]
   \<and> result (Reconcile (happyEnv newRecord)) = \<lparr>Requeue = True, RequeueAfter = 0\<rparr>
   \<and> err (Reconcile (happyEnv newRecord)) = None
   \<and> pass (happyEnv newRecord) (Some newRecord) = Some guardedRecord
   \<and> run [happyEnv newRecord, happyEnv newRecord] (Some newRecord) = Some progressingRecord
   \<and> RegisterCall registeredConfig \<in> set (calls (Reconcile
        ((happyEnv newRecord)\<lparr>Get := fetch (run [happyEnv newRecord, happyEnv newRecord]
                                               (Some newRecord))\<rparr>)))
   \<and> ContainsFinalizer progressingRecord clusterRegistrationFinalizer"
proof -
  have h: "Get (happyEnv newRecord) = Inr newRecord" "IsZero (DeletionTimestamp newRecord)"
    "\<not> ContainsFinalizer newRecord clusterRegistrationFinalizer"
    "Update (happyEnv newRecord) guardedRecord = None"
    by (simp_all add: example_defs const_defs)
  have g: "newRecord\<lparr>Finalizers := Finalizers newRecord @ [clusterRegistrationFinalizer]\<rparr>
      = guardedRecord"
    by (simp add: example_defs)
  have r: "run [happyEnv newRecord, happyEnv newRecord] (Some newRecord) = Some progressingRecord"
    by (simp add: eval_defs example_defs const_defs)
  have c: "RegisterCall registeredConfig \<in> set (calls (Reconcile
        ((happyEnv newRecord)\<lparr>Get := fetch (Some progressingRecord)\<rparr>)))"
    by (simp add: eval_defs example_defs const_defs)
  from finalizer_installed_before_registration [where e = "happyEnv newRecord"
        and cr = newRecord and e' = "happyEnv newRecord" and cfg = registeredConfig
        and es = "[happyEnv newRecord, happyEnv newRecord]" and s = "Some newRecord"] h c
  show ?thesis unfolding Let_def g r by simp
qed

subsection \<open>C9: the failure projection keeps the cluster info\<close>

text \<open>
  C9. \<^verbatim>\<open>updateFailedStatus\<close> leaves the cluster info as it was, and changes nothing of the
  record but the phase, message, observed generation, reconcile time and conditions of
  its status. So when a record that is Ready with a cluster info, and whose generation is
  newer than the observed one, is reconciled and the pass writes phase Failed, that write
  (the object the pass ends with) still carries the earlier cluster info, next to the new
  observed generation.
\<close>

theorem failure_projection_keeps_clusterInfo:
  "ClusterInfo (Status (fst (updateFailedStatus e cr message))) = ClusterInfo (Status cr)
   \<and> fst (updateFailedStatus e cr message) =
       cr\<lparr>Status := (Status cr)\<lparr>
         Phase := Phase (Status (fst (updateFailedStatus e cr message))),
         Message := Message (Status (fst (updateFailedStatus e cr message))),
         ObservedGeneration := ObservedGeneration (Status (fst (updateFailedStatus e cr message))),
         LastReconcileTime := LastReconcileTime (Status (fst (updateFailedStatus e cr message))),
         Conditions := Conditions (Status (fst (updateFailedStatus e cr message)))\<rparr>\<rparr>
   \<and> (Get e = Inr cr \<and> Phase (Status cr) = ''Ready'' \<and> ClusterInfo (Status cr) = Some info
        \<and> ObservedGeneration (Status cr) \<noteq> Generation cr
        \<and> StatusUpdateCall w \<in> set (calls (Reconcile e)) \<and> Phase (Status w) = ''Failed'' \<longrightarrow>
          object (Reconcile e) = Some w
        \<and> ClusterInfo (Status w) = Some info
        \<and> ObservedGeneration (Status w) = Generation cr)"
proof (intro conjI)
  show "ClusterInfo (Status (fst (updateFailedStatus e cr message))) = ClusterInfo (Status cr)"
    by (simp add: failed_object)
  show "fst (updateFailedStatus e cr message) =
       cr\<lparr>Status := (Status cr)\<lparr>
         Phase := Phase (Status (fst (updateFailedStatus e cr message))),
         Message := Message (Status (fst (updateFailedStatus e cr message))),
         ObservedGeneration := ObservedGeneration (Status (fst (updateFailedStatus e cr message))),
         LastReconcileTime := LastReconcileTime (Status (fst (updateFailedStatus e cr message))),
         Conditions := Conditions (Status (fst (updateFailedStatus e cr message)))\<rparr>\<rparr>"
    by (simp add: failed_object)
  show "Get e = Inr cr \<and> Phase (Status cr) = ''Ready'' \<and> ClusterInfo (Status cr) = Some info
        \<and> ObservedGeneration (Status cr) \<noteq> Generation cr
        \<and> StatusUpdateCall w \<in> set (calls (Reconcile e)) \<and> Phase (Status w) = ''Failed'' \<longrightarrow>
          object (Reconcile e) = Some w
        \<and> ClusterInfo (Status w) = Some info
        \<and> ObservedGeneration (Status w) = Generation cr"
  proof (rule impI)
    assume a: "Get e = Inr cr \<and> Phase (Status cr) = ''Ready'' \<and> ClusterInfo (Status cr) = Some info
        \<and> ObservedGeneration (Status cr) \<noteq> Generation cr
        \<and> StatusUpdateCall w \<in> set (calls (Reconcile e)) \<and> Phase (Status w) = ''Failed''"
    then have g: "Get e = Inr cr" and w: "StatusUpdateCall w \<in> set (calls (Reconcile e))"
      and f: "Phase (Status w) = ''Failed''" and i: "ClusterInfo (Status cr) = Some info"
      by simp_all
    from f have "w \<noteq> announced cr" "\<And>cfg0. w \<noteq> readyProjection e cr cfg0"
      by (auto simp: announced_def readyProjection_def)
    with status_write_cases [OF g w]
    obtain m where o: "object (Reconcile e) = Some w" and m: "w = fst (updateFailedStatus e cr m)"
      by blast
    from o i show "object (Reconcile e) = Some w
        \<and> ClusterInfo (Status w) = Some info
        \<and> ObservedGeneration (Status w) = Generation cr"
      by (simp add: m failed_object)
  qed
qed

text \<open>
  C9 at the example Ready record after an edit of its spec to a configuration that does
  not parse: the record ends Failed with the endpoint and credential type of the earlier
  registration.
\<close>

theorem failure_projection_keeps_clusterInfo_witness:
  "Get (badYamlEnv editedRecord) = Inr editedRecord
   \<and> Phase (Status editedRecord) = ''Ready''
   \<and> ClusterInfo (Status editedRecord)
       = Some \<lparr>Endpoint = ''https://10.0.0.1:6443'', CredentialType = ''ServiceAccountToken'',
               Version = ''''\<rparr>
   \<and> ObservedGeneration (Status editedRecord) \<noteq> Generation editedRecord
   \<and> object (Reconcile (badYamlEnv editedRecord)) =
       Some (editedRecord\<lparr>Status :=
         \<lparr>Phase = ''Failed'',
          Conditions = [\<lparr>cond_Type = ''Ready'', cond_Status = ''False'',
                         cond_LastTransitionTime = 1001, cond_Reason = ''Unavailable'',
                         cond_Message = ''Failed to load kubeconfig: bad yaml''\<rparr>],
          ClusterInfo = Some \<lparr>Endpoint = ''https://10.0.0.1:6443'',
                              CredentialType = ''ServiceAccountToken'', Version = ''''\<rparr>,
          Message = ''Failed to load kubeconfig: bad yaml'',
          ObservedGeneration = 2, LastReconcileTime = Some 1000\<rparr>\<rparr>)"
proof -
  let ?w = "editedRecord\<lparr>Status :=
         \<lparr>Phase = ''Failed'',
          Conditions = [\<lparr>cond_Type = ''Ready'', cond_Status = ''False'',
                         cond_LastTransitionTime = 1001, cond_Reason = ''Unavailable'',
                         cond_Message = ''Failed to load kubeconfig: bad yaml''\<rparr>],
          ClusterInfo = Some \<lparr>Endpoint = ''https://10.0.0.1:6443'',
                              CredentialType = ''ServiceAccountToken'', Version = ''''\<rparr>,
          Message = ''Failed to load kubeconfig: bad yaml'',
          ObservedGeneration = 2, LastReconcileTime = Some 1000\<rparr>\<rparr>"
  have h: "Get (badYamlEnv editedRecord) = Inr editedRecord"
    "Phase (Status editedRecord) = ''Ready''"
    "ClusterInfo (Status editedRecord)
       = Some \<lparr>Endpoint = ''https://10.0.0.1:6443'', CredentialType = ''ServiceAccountToken'',
               Version = ''''\<rparr>"
    "ObservedGeneration (Status editedRecord) \<noteq> Generation editedRecord"
    "StatusUpdateCall ?w \<in> set (calls (Reconcile (badYamlEnv editedRecord)))"
    "Phase (Status ?w) = ''Failed''"
    by (simp_all add: badYamlEnv_def editedRecord_def eval_defs example_defs const_defs)
  from failure_projection_keeps_clusterInfo [where e = "badYamlEnv editedRecord"
        and cr = editedRecord and w = ?w
        and info = "\<lparr>Endpoint = ''https://10.0.0.1:6443'',
                      CredentialType = ''ServiceAccountToken'', Version = ''''\<rparr>"] h
  show ?thesis by simp
qed

subsection \<open>C10: a Failed record is not at the fixed point\<close>

text \<open>
  C10 as stated fails: the pass that is handed the example Failed record (observed
  generation equal to the generation, finalizer present, no deletion marker) announces
  Progressing and returns; it neither loads the configuration nor calls the Registrar.
\<close>

theorem failed_redelivery_counterexample:
  "Phase (Status failedRecord) = ''Failed''
   \<and> ObservedGeneration (Status failedRecord) = Generation failedRecord
   \<and> ContainsFinalizer failedRecord clusterRegistrationFinalizer
   \<and> IsZero (DeletionTimestamp failedRecord)
   \<and> Reconcile (happyEnv failedRecord) =
       \<lparr>result = \<lparr>Requeue = False, RequeueAfter = 0\<rparr>, err = None,
        calls = [GetCall,
                 StatusUpdateCall (failedRecord\<lparr>Status := (Status failedRecord)\<lparr>
                   Phase := ''Progressing'', Message := ''Registering cluster...''\<rparr>\<rparr>)],
        logs = [],
        object = Some (failedRecord\<lparr>Status := (Status failedRecord)\<lparr>
                   Phase := ''Progressing'', Message := ''Registering cluster...''\<rparr>\<rparr>)\<rparr>
   \<and> LoadCall (Kubeconfig (Spec failedRecord)) \<notin> set (calls (Reconcile (happyEnv failedRecord)))
   \<and> RegisterCall registeredConfig \<notin> set (calls (Reconcile (happyEnv failedRecord)))"
  by (simp add: eval_defs example_defs const_defs)

text \<open>
  C10, amended. The short-circuit applies only to phase Ready: for a record with phase
  Failed (finalizer present, no deletion marker, whatever its observed generation), a
  redelivery re-enters the forward path. If the resolved name is the reserved one, the
  pass projects Failed again. Otherwise the pass makes the Progressing announcement, its
  only call after the fetch, and returns what that write answers; an accepted write
  stores the Progressing record, and a pass that is handed that record and can create and
  fill the temporary file loads the configuration, and calls the Registrar when the
  configuration loads and validates.
\<close>

theorem failed_record_reenters_forward_path:
  assumes "Get e = Inr cr" and "IsZero (DeletionTimestamp cr)"
    and "ContainsFinalizer cr clusterRegistrationFinalizer"
    and "Phase (Status cr) = ''Failed''"
  shows "(resolvedClusterName cr = ClusterLocalName \<longrightarrow>
            calls (Reconcile e) = [GetCall, StatusUpdateCall
               (fst (updateFailedStatus e cr ''cluster name cannot be 'local', it is reserved''))])
       \<and> (resolvedClusterName cr \<noteq> ClusterLocalName \<longrightarrow>
            (let progressing = cr\<lparr>Status := (Status cr)\<lparr>
                   Phase := ''Progressing'', Message := ''Registering cluster...''\<rparr>\<rparr>
             in calls (Reconcile e) = [GetCall, StatusUpdateCall progressing]
              \<and> result (Reconcile e) = \<lparr>Requeue = False, RequeueAfter = 0\<rparr>
              \<and> err (Reconcile e) = StatusUpdate e progressing
              \<and> (StatusUpdate e progressing = None \<longrightarrow> pass e (Some cr) = Some progressing)
              \<and> (Get e2 = Inr progressing \<and> CreateTemp e2 = None
                   \<and> Write e2 (Kubeconfig (Spec cr)) = None \<longrightarrow>
                    LoadCall (Kubeconfig (Spec cr)) \<in> set (calls (Reconcile e2))
                  \<and> (LoadKubeClusterConfigFromFile e2 (Kubeconfig (Spec cr)) = Inr loaded
                      \<and> Validate e2 (configuredFor cr loaded) = None \<longrightarrow>
                        RegisterCall (configuredFor cr loaded) \<in> set (calls (Reconcile e2))))))"
proof -
  from assms(2-4) have fwd: "forwardPath cr"
    by (simp add: forwardPath_def ClusterRegistrationPhaseReady_def)
  have first: "calls (Reconcile e) = [GetCall, StatusUpdateCall
               (fst (updateFailedStatus e cr ''cluster name cannot be 'local', it is reserved''))]"
    if "resolvedClusterName cr = ClusterLocalName"
    using Reconcile_reserved_outcome [OF assms(1) fwd that] by (simp add: failedOutcome_def)
  have second: "let progressing = cr\<lparr>Status := (Status cr)\<lparr>
                   Phase := ''Progressing'', Message := ''Registering cluster...''\<rparr>\<rparr>
             in calls (Reconcile e) = [GetCall, StatusUpdateCall progressing]
              \<and> result (Reconcile e) = \<lparr>Requeue = False, RequeueAfter = 0\<rparr>
              \<and> err (Reconcile e) = StatusUpdate e progressing
              \<and> (StatusUpdate e progressing = None \<longrightarrow> pass e (Some cr) = Some progressing)
              \<and> (Get e2 = Inr progressing \<and> CreateTemp e2 = None
                   \<and> Write e2 (Kubeconfig (Spec cr)) = None \<longrightarrow>
                    LoadCall (Kubeconfig (Spec cr)) \<in> set (calls (Reconcile e2))
                  \<and> (LoadKubeClusterConfigFromFile e2 (Kubeconfig (Spec cr)) = Inr loaded
                      \<and> Validate e2 (configuredFor cr loaded) = None \<longrightarrow>
                        RegisterCall (configuredFor cr loaded) \<in> set (calls (Reconcile e2))))"
    if name: "resolvedClusterName cr \<noteq> ClusterLocalName"
  proof -
    from assms(4) have ph: "Phase (Status cr) \<noteq> ClusterRegistrationPhaseProgressing"
      "Phase (Status cr) \<noteq> ClusterRegistrationPhaseReady"
      by (simp_all add: phase_defs)
    note R = Reconcile_announce [OF assms(1) fwd name ph]
    have f: "e\<lparr>Get := fetch (Some cr)\<rparr> = e"
      using assms(1) by (simp add: fetch_def)
    have st: "registrationStage (announced cr)"
      using assms(2,3) name by (rule announced_stage)
    have sp: "Spec (announced cr) = Spec cr" by (simp add: announced_def)
    have cf: "configuredFor (announced cr) loaded = configuredFor cr loaded"
      by (simp add: configuredFor_def resolvedClusterName_def announced_def)
    have p1: "pass e (Some cr) = Some (announced cr)" if "StatusUpdate e (announced cr) = None"
      using that unfolding pass_def f R by (simp add: persist_def announced_def)
    have p2: "LoadCall (Kubeconfig (Spec cr)) \<in> set (calls (Reconcile e2))"
      if "Get e2 = Inr (announced cr)" "CreateTemp e2 = None"
         "Write e2 (Kubeconfig (Spec cr)) = None"
      using stage_loads [OF that(1) st that(2)] that(3) by (simp add: sp)
    have p3: "RegisterCall (configuredFor cr loaded) \<in> set (calls (Reconcile e2))"
      if "Get e2 = Inr (announced cr)" "CreateTemp e2 = None"
         "Write e2 (Kubeconfig (Spec cr)) = None"
         "LoadKubeClusterConfigFromFile e2 (Kubeconfig (Spec cr)) = Inr loaded"
         "Validate e2 (configuredFor cr loaded) = None"
      using stage_registers [OF that(1) st that(2), of loaded] that(3-5) by (simp add: sp cf)
    show ?thesis
      unfolding Let_def announced_def [symmetric]
      using p1 p2 p3 by (simp add: R Result_empty_def)
  qed
  from first second show ?thesis by blast
qed

text \<open>
  The amended C10 at the example Failed record (the announcement, then the registration),
  and at a Failed record with the reserved name (the failure is projected again).
\<close>

theorem failed_record_reenters_forward_path_witness:
  "Get (happyEnv failedRecord) = Inr failedRecord \<and> IsZero (DeletionTimestamp failedRecord)
   \<and> ContainsFinalizer failedRecord clusterRegistrationFinalizer
   \<and> Phase (Status failedRecord) = ''Failed''
   \<and> resolvedClusterName failedRecord \<noteq> ClusterLocalName
   \<and> calls (Reconcile (happyEnv failedRecord)) =
       [GetCall, StatusUpdateCall (failedRecord\<lparr>Status := (Status failedRecord)\<lparr>
                   Phase := ''Progressing'', Message := ''Registering cluster...''\<rparr>\<rparr>)]
   \<and> pass (happyEnv failedRecord) (Some failedRecord) =
       Some (failedRecord\<lparr>Status := (Status failedRecord)\<lparr>
               Phase := ''Progressing'', Message := ''Registering cluster...''\<rparr>\<rparr>)
   \<and> LoadCall ''clusters: [prod-west]'' \<in> set (calls (Reconcile
        (happyEnv (failedRecord\<lparr>Status := (Status failedRecord)\<lparr>
               Phase := ''Progressing'', Message := ''Registering cluster...''\<rparr>\<rparr>))))
   \<and> RegisterCall registeredConfig \<in> set (calls (Reconcile
        (happyEnv (failedRecord\<lparr>Status := (Status failedRecord)\<lparr>
               Phase := ''Progressing'', Message := ''Registering cluster...''\<rparr>\<rparr>))))
   \<and> Get (happyEnv localFailedRecord) = Inr localFailedRecord
   \<and> IsZero (DeletionTimestamp localFailedRecord)
   \<and> ContainsFinalizer localFailedRecord clusterRegistrationFinalizer
   \<and> Phase (Status localFailedRecord) = ''Failed''
   \<and> resolvedClusterName localFailedRecord = ClusterLocalName
   \<and> calls (Reconcile (happyEnv localFailedRecord)) =
       [GetCall, StatusUpdateCall (localFailedRecord\<lparr>Status :=
          \<lparr>Phase = ''Failed'',
           Conditions = [\<lparr>cond_Type = ''Ready'', cond_Status = ''False'',
                          cond_LastTransitionTime = 1001, cond_Reason = ''Unavailable'',
                          cond_Message = ''cluster name cannot be 'local', it is reserved''\<rparr>],
           ClusterInfo = None,
           Message = ''cluster name cannot be 'local', it is reserved'',
           ObservedGeneration = 1, LastReconcileTime = Some 1000\<rparr>\<rparr>)]"
proof -
  let ?p = "failedRecord\<lparr>Status := (Status failedRecord)\<lparr>
               Phase := ''Progressing'', Message := ''Registering cluster...''\<rparr>\<rparr>"
  have h: "Get (happyEnv failedRecord) = Inr failedRecord"
    "IsZero (DeletionTimestamp failedRecord)"
    "ContainsFinalizer failedRecord clusterRegistrationFinalizer"
    "Phase (Status failedRecord) = ''Failed''"
    by (simp_all add: example_defs const_defs)
  have n: "resolvedClusterName failedRecord \<noteq> ClusterLocalName"
    by (simp add: resolvedClusterName_def example_defs const_defs)
  have a: "StatusUpdate (happyEnv failedRecord) ?p = None"
    "Get (happyEnv ?p) = Inr ?p" "CreateTemp (happyEnv ?p) = None"
    "Write (happyEnv ?p) (Kubeconfig (Spec failedRecord)) = None"
    "LoadKubeClusterConfigFromFile (happyEnv ?p) (Kubeconfig (Spec failedRecord))
       = Inr exampleConfig"
    "Validate (happyEnv ?p) (configuredFor failedRecord exampleConfig) = None"
    by (simp_all add: happyEnv_def)
  have c: "configuredFor failedRecord exampleConfig = registeredConfig"
    "Kubeconfig (Spec failedRecord) = ''clusters: [prod-west]''"
    by (simp_all add: configuredFor_def resolvedClusterName_def example_defs const_defs)
  have h': "Get (happyEnv localFailedRecord) = Inr localFailedRecord"
    "IsZero (DeletionTimestamp localFailedRecord)"
    "ContainsFinalizer localFailedRecord clusterRegistrationFinalizer"
    "Phase (Status localFailedRecord) = ''Failed''"
    by (simp_all add: localFailedRecord_def example_defs const_defs)
  have n': "resolvedClusterName localFailedRecord = ClusterLocalName"
    by (simp add: resolvedClusterName_def localFailedRecord_def example_defs const_defs)
  have f: "fst (updateFailedStatus (happyEnv localFailedRecord) localFailedRecord
              ''cluster name cannot be 'local', it is reserved'')
      = localFailedRecord\<lparr>Status :=
          \<lparr>Phase = ''Failed'',
           Conditions = [\<lparr>cond_Type = ''Ready'', cond_Status = ''False'',
                          cond_LastTransitionTime = 1001, cond_Reason = ''Unavailable'',
                          cond_Message = ''cluster name cannot be 'local', it is reserved''\<rparr>],
           ClusterInfo = None,
           Message = ''cluster name cannot be 'local', it is reserved'',
           ObservedGeneration = 1, LastReconcileTime = Some 1000\<rparr>\<rparr>"
    by (simp add: failed_object localFailedRecord_def example_defs)
  from failed_record_reenters_forward_path [OF h, where ?e2.0 = "happyEnv ?p"
         and loaded = exampleConfig]
       failed_record_reenters_forward_path [OF h', where ?e2.0 = "happyEnv ?p"
         and loaded = exampleConfig] n a h h' n'
  show ?thesis unfolding Let_def c f by simp
qed

end
